theory Spec2Isabelle
  imports Complex_Main "HOL-Library.Word"
begin

section \<open>The pressure logger of dataLogger.cpp\<close>

text \<open>
  The program is one function, \<open>main\<close>: it configures and starts an analog input task
  through the NI-DAQmx driver, opens a CSV file, and runs two nested loops. The inner loop
  reads one buffer of samples, averages it and converts the average to PSI; the outer loop
  averages the inner results and writes one line to the file. Every driver call goes through
  the macro \<open>DAQmxErrChk\<close>, which stores the status in \<open>error\<close> and jumps to the label
  \<open>Error\<close> when the status is a failure.

  The driver, the clock and the text formatting of numbers are outside the program. They
  enter the model as an environment (\<open>env\<close>) that fixes the answer to every call; the
  program's observable actions are collected, in order, in a trace of events.
\<close>

subsection \<open>Numbers\<close>

text \<open>
  \<open>size_t\<close> is a 64-bit unsigned word, \<open>int32\<close> a 32-bit word read as two's complement.
  A task handle is compared with 0 only; it is a natural number here.

  A \<open>double\<close> is an IEEE 754 binary64 value. \<open>Finite s m e\<close> is the number
  \<open>(-1)^s * m * 2^e\<close>, with \<open>s\<close> the sign bit. The values of the format are the normal
  numbers, \<open>2^52 \<le> m < 2^53\<close> and \<open>-1074 \<le> e \<le> 971\<close>, and the subnormal numbers and
  the two zeros, \<open>m < 2^52\<close> and \<open>e = -1074\<close>; every operation below returns one of
  these, an infinity or a NaN. \<open>NaN\<close> stands for every NaN: their signs and payloads are
  not told apart.
\<close>

type_synonym size_t = "64 word"
type_synonym int32 = "32 word"
type_synonym TaskHandle = nat

datatype double = Finite bool nat int | Infinity bool | NaN

text \<open>The real number a finite \<open>double\<close> denotes.\<close>

fun value_of :: "double \<Rightarrow> real option" where
  "value_of (Finite s m e) =
     Some ((if s then - 1 else 1) * (if 0 \<le> e then real m * 2 ^ nat e else real m / 2 ^ nat (- e)))"
| "value_of (Infinity s) = None"
| "value_of NaN = None"

text \<open>
  Rounding to nearest, ties to even, the rounding of every operation of the program.
  \<open>round_fraction s p q E\<close> is the \<open>double\<close> nearest to \<open>(-1)^s * (p / q) * 2^E\<close>:
  \<open>floor_log2 p q\<close> is the binary exponent of \<open>p / q\<close>, which fixes the exponent \<open>k\<close> of
  the last place kept (never below the subnormal exponent -1074);
  \<open>round_half_even\<close> rounds the quotient scaled to that place; \<open>pack\<close> carries a
  significand that has reached \<open>2^53\<close> into the next exponent and turns a result beyond
  the largest finite number into an infinity.
\<close>

fun bit_length :: "nat \<Rightarrow> nat" where
  "bit_length n = (if n = 0 then 0 else bit_length (n div 2) + 1)"

declare bit_length.simps [simp del]

definition floor_log2_from :: "nat \<Rightarrow> nat \<Rightarrow> int \<Rightarrow> int" where
  "floor_log2_from p q d =
     (if (if 0 \<le> d then q * 2 ^ nat d \<le> p else q \<le> p * 2 ^ nat (- d)) then d else d - 1)"

definition floor_log2 :: "nat \<Rightarrow> nat \<Rightarrow> int" where
  "floor_log2 p q = floor_log2_from p q (int (bit_length p) - int (bit_length q))"

definition round_half_even :: "nat \<Rightarrow> nat \<Rightarrow> nat" where
  "round_half_even P Q =
     (if 2 * (P mod Q) < Q then P div Q
      else if Q < 2 * (P mod Q) then P div Q + 1
      else if even (P div Q) then P div Q else P div Q + 1)"

definition pack :: "bool \<Rightarrow> nat \<Rightarrow> int \<Rightarrow> double" where
  "pack s n k =
     (if n = 2 ^ 53 then (if 971 < k + 1 then Infinity s else Finite s (2 ^ 52) (k + 1))
      else if 971 < k then Infinity s
      else Finite s n k)"

definition round_at :: "bool \<Rightarrow> nat \<Rightarrow> nat \<Rightarrow> int \<Rightarrow> int \<Rightarrow> double" where
  "round_at s p q E k =
     pack s (round_half_even (if k \<le> E then p * 2 ^ nat (E - k) else p)
                             (if k \<le> E then q else q * 2 ^ nat (k - E))) k"

definition round_fraction :: "bool \<Rightarrow> nat \<Rightarrow> nat \<Rightarrow> int \<Rightarrow> double" where
  "round_fraction s p q E =
     (if p = 0 then Finite s 0 (- 1074)
      else round_at s p q E (max (floor_log2 p q + E - 52) (- 1074)))"

text \<open>
  The four operations. A sum that is exactly zero is \<open>+0\<close>, unless both operands are
  negative zeros; adding a zero to a number leaves the number; a product and a quotient
  have the sign of their operands combined; \<open>0/0\<close>, \<open>inf - inf\<close>, \<open>0 * inf\<close> and
  \<open>inf/inf\<close> are NaN, a non-zero number over zero is an infinity, and no operation
  traps. \<open>x - y\<close> is \<open>x + (-y)\<close>.
\<close>

fun dneg :: "double \<Rightarrow> double" where
  "dneg (Finite s m e) = Finite (\<not> s) m e"
| "dneg (Infinity s) = Infinity (\<not> s)"
| "dneg NaN = NaN"

definition add_aligned :: "int \<Rightarrow> int \<Rightarrow> double" where
  "add_aligned i E =
     (if i = 0 then Finite False 0 (- 1074) else round_fraction (i < 0) (nat \<bar>i\<bar>) 1 E)"

fun dadd :: "double \<Rightarrow> double \<Rightarrow> double" where
  "dadd (Finite s1 m1 e1) (Finite s2 m2 e2) =
     (if m1 = 0 \<and> m2 = 0 then Finite (s1 \<and> s2) 0 (- 1074)
      else if m1 = 0 then round_fraction s2 m2 1 e2
      else if m2 = 0 then round_fraction s1 m1 1 e1
      else add_aligned
             ((if s1 then - 1 else 1) * int m1 * 2 ^ nat (e1 - min e1 e2)
              + (if s2 then - 1 else 1) * int m2 * 2 ^ nat (e2 - min e1 e2))
             (min e1 e2))"
| "dadd (Finite s1 m1 e1) (Infinity s2) = Infinity s2"
| "dadd (Infinity s1) (Finite s2 m2 e2) = Infinity s1"
| "dadd (Infinity s1) (Infinity s2) = (if s1 = s2 then Infinity s1 else NaN)"
| "dadd _ _ = NaN"

definition dsub :: "double \<Rightarrow> double \<Rightarrow> double" where
  "dsub a b = dadd a (dneg b)"

fun dmul :: "double \<Rightarrow> double \<Rightarrow> double" where
  "dmul (Finite s1 m1 e1) (Finite s2 m2 e2) = round_fraction (s1 \<noteq> s2) (m1 * m2) 1 (e1 + e2)"
| "dmul (Finite s1 m1 e1) (Infinity s2) = (if m1 = 0 then NaN else Infinity (s1 \<noteq> s2))"
| "dmul (Infinity s1) (Finite s2 m2 e2) = (if m2 = 0 then NaN else Infinity (s1 \<noteq> s2))"
| "dmul (Infinity s1) (Infinity s2) = Infinity (s1 \<noteq> s2)"
| "dmul _ _ = NaN"

fun ddiv :: "double \<Rightarrow> double \<Rightarrow> double" where
  "ddiv (Finite s1 m1 e1) (Finite s2 m2 e2) =
     (if m2 = 0 then (if m1 = 0 then NaN else Infinity (s1 \<noteq> s2))
      else round_fraction (s1 \<noteq> s2) m1 m2 (e1 - e2))"
| "ddiv (Finite s1 m1 e1) (Infinity s2) = Finite (s1 \<noteq> s2) 0 (- 1074)"
| "ddiv (Infinity s1) (Finite s2 m2 e2) = Infinity (s1 \<noteq> s2)"
| "ddiv (Infinity s1) (Infinity s2) = NaN"
| "ddiv _ _ = NaN"

text \<open>
  The conversion of an unsigned integer to \<open>double\<close>, as in \<open>(double)v.size()\<close>; the
  literals \<open>0.0\<close>, \<open>1.0\<close>, \<open>4.0\<close> and \<open>15.0\<close> of the source are written with it.
\<close>

definition double_of_nat :: "nat \<Rightarrow> double" where
  "double_of_nat n = round_fraction False n 1 0"

text \<open>\<open>std::accumulate(first, last, init)\<close>: a left fold with \<open>+\<close>, starting from \<open>init\<close>.\<close>

definition accumulate :: "double list \<Rightarrow> double \<Rightarrow> double" where
  "accumulate xs init = foldl dadd init xs"

text \<open>
  The expression \<open>(double)std::accumulate(v.begin(), v.end(), 0.0) / (double)v.size()\<close>,
  which the program evaluates on \<open>dataBuffer\<close> (line 104) and on \<open>bufferAverages\<close>
  (line 114).
\<close>

definition mean_of :: "double list \<Rightarrow> double" where
  "mean_of v = ddiv (accumulate v (double_of_nat 0)) (double_of_nat (length v))"

text \<open>Line 107: \<open>meani = (15.0 / 4.0) * (meani - 1.0)\<close>.\<close>

definition convert :: "double \<Rightarrow> double" where
  "convert meani =
     dmul (ddiv (double_of_nat 15) (double_of_nat 4)) (dsub meani (double_of_nat 1))"

subsection \<open>The driver, the clock and the trace\<close>

text \<open>
  \<open>DAQmxFailed\<close> comes from NI's header, which is not part of the repository:
  \<open>#define DAQmxFailed(error) ((error) < 0)\<close>.
\<close>

definition DAQmxFailed :: "int32 \<Rightarrow> bool" where
  "DAQmxFailed e = (sint e < 0)"

text \<open>
  What one call of \<open>DAQmxReadAnalogF64\<close> does: the status it returns, the samples it
  stores at the front of the caller's array, and the count it stores in \<open>reads\<close>.
\<close>

record read_outcome =
  status :: int32
  samples :: "double list"
  sampsRead :: int32

record env =
  createTask :: "int32 \<times> TaskHandle"
  createAIVoltageChan :: int32
  cfgSampClkTiming :: int32
  startTask :: int32
  readAnalogF64 :: "nat \<Rightarrow> read_outcome"
  extendedErrorInfo :: string
  current_time :: "nat \<Rightarrow> string"
  fileOpen :: bool
  fileAccepts :: "nat option"

text \<open>
  \<open>createTask\<close> is the status of \<open>DAQmxCreateTask\<close> and the handle it stores (0 when it
  stores none). \<open>readAnalogF64 k\<close> answers the read call number \<open>k\<close> (from 0), and
  \<open>current_time k\<close> is what call number \<open>k\<close> of \<open>return_current_time_and_date\<close> returns.

  The file system answers the stream \<open>myfile\<close>. \<open>fileOpen\<close> tells whether
  \<open>myfile.open\<close> opens the file. \<open>fileAccepts\<close> is \<open>None\<close> when the storage takes every
  character the stream sends to the open file, and \<open>Some n\<close> when it fails after \<open>n\<close>
  characters. The program never tests the stream, so neither answer changes what it does.
\<close>

datatype event =
    EvCreateTask
  | EvCreateAIVoltageChan TaskHandle
  | EvCfgSampClkTiming TaskHandle size_t
  | EvStartTask TaskHandle
  | EvReadAnalogF64 TaskHandle size_t
  | EvGetExtendedErrorInfo
  | EvStopTask TaskHandle
  | EvClearTask TaskHandle
  | EvCoutStart
  | EvCoutMean double int32
  | EvCoutInterval double
  | EvPrintfError string
  | EvFileOpen
  | EvFileHeader
  | EvFileRecord string double
  | EvFileClose

text \<open>
  The driver writes into an array of fixed size: the new samples replace the front of the
  old contents, and what lies beyond them keeps its old value.
\<close>

definition overlay :: "double list \<Rightarrow> double list \<Rightarrow> double list" where
  "overlay new old = take (length old) new @ drop (length new) old"

subsection \<open>The program\<close>

record config =
  bufferSize :: size_t
  numberOfBuffers :: size_t
  numberOfSamples :: size_t

definition reference_config :: config where
  "reference_config = \<lparr>bufferSize = 100, numberOfBuffers = 60, numberOfSamples = 5000\<rparr>"

record state =
  error :: int32
  taskHandle :: TaskHandle
  errBuff :: string
  reads :: int32
  dataBuffer :: "double list"
  bufferAverages :: "double list"
  myfile_open :: bool
  read_calls :: nat
  clock_calls :: nat
  trace :: "event list"

definition initial_state :: "config \<Rightarrow> state" where
  "initial_state cfg =
     \<lparr>error = 0, taskHandle = 0, errBuff = [], reads = 0,
      dataBuffer = replicate (unat (bufferSize cfg)) (double_of_nat 0),
      bufferAverages = replicate (unat (numberOfBuffers cfg)) (double_of_nat 0),
      myfile_open = False, read_calls = 0, clock_calls = 0, trace = []\<rparr>"

definition emit :: "event \<Rightarrow> state \<Rightarrow> state" where
  "emit e s = s\<lparr>trace := trace s @ [e]\<rparr>"

text \<open>
  \<open>DAQmxErrChk(call)\<close>: \<open>error\<close> takes the status; a failure jumps to \<open>Error\<close>. A step
  of the program returns \<open>Inl s\<close> when it has jumped to \<open>Error\<close> in state \<open>s\<close> and
  \<open>Inr s\<close> when it falls through.
\<close>

definition DAQmxErrChk :: "int32 \<Rightarrow> state \<Rightarrow> state + state" where
  "DAQmxErrChk st s =
     (let s' = s\<lparr>error := st\<rparr> in if DAQmxFailed st then Inl s' else Inr s')"

definition and_then :: "state + state \<Rightarrow> (state \<Rightarrow> state + state) \<Rightarrow> state + state" where
  "and_then r f = (case r of Inl s \<Rightarrow> Inl s | Inr s \<Rightarrow> f s)"

text \<open>Lines 92-110: one pass of the inner loop.\<close>

definition inner_body :: "config \<Rightarrow> env \<Rightarrow> size_t \<Rightarrow> state \<Rightarrow> state + state" where
  "inner_body cfg env bufferi s =
     (let out = readAnalogF64 env (read_calls s);
          s1 = (emit (EvReadAnalogF64 (taskHandle s) (bufferSize cfg)) s)
                 \<lparr>dataBuffer := overlay (samples out) (dataBuffer s),
                  reads := sampsRead out,
                  read_calls := Suc (read_calls s)\<rparr>
      in and_then (DAQmxErrChk (status out) s1) (\<lambda>s2.
           let meani = mean_of (dataBuffer s2);
               meani = convert meani;
               s3 = emit (EvCoutMean meani (reads s2)) s2
           in Inr (s3\<lparr>bufferAverages := (bufferAverages s3)[unat bufferi := meani]\<rparr>)))"

text \<open>Line 89: \<open>for (size_t bufferi = 0; bufferi != numberOfBuffers; ++bufferi)\<close>.\<close>

function inner_loop :: "config \<Rightarrow> env \<Rightarrow> size_t \<Rightarrow> state \<Rightarrow> state + state" where
  "inner_loop cfg env bufferi s =
     (if bufferi \<noteq> numberOfBuffers cfg
      then (case inner_body cfg env bufferi s of
              Inl e \<Rightarrow> Inl e
            | Inr s' \<Rightarrow> inner_loop cfg env (bufferi + 1) s')
      else Inr s)"
  by pat_completeness auto

termination
proof (relation "measure (\<lambda>(cfg, env, bufferi, s). unat (numberOfBuffers cfg - bufferi))")
  show "wf (measure (\<lambda>(cfg, env, bufferi, s). unat (numberOfBuffers cfg - bufferi)))"
    by simp
next
  fix cfg :: config and env :: env and bufferi :: size_t and s s' :: state
  assume "bufferi \<noteq> numberOfBuffers cfg"
  then have nz: "numberOfBuffers cfg - bufferi \<noteq> 0" by simp
  then have pos: "unat (numberOfBuffers cfg - bufferi) \<noteq> 0" by (simp add: unat_eq_0)
  have e: "numberOfBuffers cfg - (bufferi + 1) = (numberOfBuffers cfg - bufferi) - 1" by simp
  have "unat (numberOfBuffers cfg - (bufferi + 1)) < unat (numberOfBuffers cfg - bufferi)"
    unfolding e using nz pos by (simp add: unat_minus_one)
  then show "((cfg, env, bufferi + 1, s'), cfg, env, bufferi, s)
       \<in> measure (\<lambda>(cfg, env, bufferi, s). unat (numberOfBuffers cfg - bufferi))"
    by simp
qed

text \<open>Lines 88-120: one pass of the outer loop.\<close>

definition outer_body :: "config \<Rightarrow> env \<Rightarrow> state \<Rightarrow> state + state" where
  "outer_body cfg env s =
     and_then (inner_loop cfg env 0 s) (\<lambda>s1.
       let meanOfMeans = mean_of (bufferAverages s1);
           s2 = emit (EvCoutInterval meanOfMeans) s1;
           ts = current_time env (clock_calls s2);
           s3 = s2\<lparr>clock_calls := Suc (clock_calls s2)\<rparr>
       in Inr (emit (EvFileRecord ts meanOfMeans) s3))"

text \<open>Line 86: \<open>for (size_t samplei = 0; samplei != numberOfSamples; ++samplei)\<close>.\<close>

function outer_loop :: "config \<Rightarrow> env \<Rightarrow> size_t \<Rightarrow> state \<Rightarrow> state + state" where
  "outer_loop cfg env samplei s =
     (if samplei \<noteq> numberOfSamples cfg
      then (case outer_body cfg env s of
              Inl e \<Rightarrow> Inl e
            | Inr s' \<Rightarrow> outer_loop cfg env (samplei + 1) s')
      else Inr s)"
  by pat_completeness auto

termination
proof (relation "measure (\<lambda>(cfg, env, samplei, s). unat (numberOfSamples cfg - samplei))")
  show "wf (measure (\<lambda>(cfg, env, samplei, s). unat (numberOfSamples cfg - samplei)))"
    by simp
next
  fix cfg :: config and env :: env and samplei :: size_t and s s' :: state
  assume "samplei \<noteq> numberOfSamples cfg"
  then have nz: "numberOfSamples cfg - samplei \<noteq> 0" by simp
  then have pos: "unat (numberOfSamples cfg - samplei) \<noteq> 0" by (simp add: unat_eq_0)
  have e: "numberOfSamples cfg - (samplei + 1) = (numberOfSamples cfg - samplei) - 1" by simp
  have "unat (numberOfSamples cfg - (samplei + 1)) < unat (numberOfSamples cfg - samplei)"
    unfolding e using nz pos by (simp add: unat_minus_one)
  then show "((cfg, env, samplei + 1, s'), cfg, env, samplei, s)
       \<in> measure (\<lambda>(cfg, env, samplei, s). unat (numberOfSamples cfg - samplei))"
    by simp
qed

text \<open>
  Lines 68-77: create the task, the voltage channel and the sample clock, then start the
  task. \<open>DAQmxCreateTask\<close> stores the handle through its second argument.
\<close>

definition start_acquisition :: "config \<Rightarrow> env \<Rightarrow> state \<Rightarrow> state + state" where
  "start_acquisition cfg env s =
     (let s1 = (emit EvCreateTask s)\<lparr>taskHandle := snd (createTask env)\<rparr> in
      and_then (DAQmxErrChk (fst (createTask env)) s1) (\<lambda>s2.
      and_then (DAQmxErrChk (createAIVoltageChan env)
                  (emit (EvCreateAIVoltageChan (taskHandle s2)) s2)) (\<lambda>s3.
      and_then (DAQmxErrChk (cfgSampClkTiming env)
                  (emit (EvCfgSampClkTiming (taskHandle s3) (bufferSize cfg)) s3)) (\<lambda>s4.
      DAQmxErrChk (startTask env) (emit (EvStartTask (taskHandle s4)) s4)))))"

text \<open>
  The stream. \<open>myfile_open\<close> is \<open>myfile.is_open()\<close>. The trace holds the operations
  on the stream: \<open>EvFileOpen\<close> the call of \<open>open\<close>, \<open>EvFileHeader\<close> and
  \<open>EvFileRecord\<close> the insertions of lines 83 and 119, \<open>EvFileClose\<close> a close. Line 123
  calls \<open>close\<close> whatever the state of the stream; after it no file is open. The
  destructor of \<open>std::ofstream\<close>, which runs when \<open>main\<close> returns, closes the file
  when one is still open and does nothing otherwise. What the operations do to the file is
  \<open>file_written\<close> below.
\<close>

definition myfile_close :: "state \<Rightarrow> state" where
  "myfile_close s = (emit EvFileClose s)\<lparr>myfile_open := False\<rparr>"

definition myfile_destroy :: "state \<Rightarrow> state" where
  "myfile_destroy s =
     (if myfile_open s then (emit EvFileClose s)\<lparr>myfile_open := False\<rparr> else s)"

text \<open>
  Lines 68-123: everything before the label \<open>Error\<close>. Whether \<open>myfile.open\<close> opens
  the file is the answer \<open>fileOpen\<close> of the file system; the program does not test
  it and goes on in either case.
\<close>

definition body :: "config \<Rightarrow> env \<Rightarrow> state \<Rightarrow> state + state" where
  "body cfg env s =
     and_then (start_acquisition cfg env s) (\<lambda>s1.
       let s2 = emit EvCoutStart s1;
           s3 = (emit EvFileOpen s2)\<lparr>myfile_open := fileOpen env\<rparr>;
           s4 = emit EvFileHeader s3
       in and_then (outer_loop cfg env 0 s4) (\<lambda>s5. Inr (myfile_close s5)))"

text \<open>Lines 126-136: the code at the label \<open>Error\<close>, reached by jump or by falling through.\<close>

definition cleanup :: "env \<Rightarrow> state \<Rightarrow> state" where
  "cleanup env s =
     (let s1 = (if DAQmxFailed (error s)
                then (emit EvGetExtendedErrorInfo s)\<lparr>errBuff := extendedErrorInfo env\<rparr>
                else s);
          s2 = (if taskHandle s1 \<noteq> 0
                then emit (EvClearTask (taskHandle s1)) (emit (EvStopTask (taskHandle s1)) s1)
                else s1)
      in if DAQmxFailed (error s2) then emit (EvPrintfError (errBuff s2)) s2 else s2)"

text \<open>
  \<open>main\<close> returns the exit code and the final state; the trace of the final state holds
  everything the run did, the closing of a file still open by the stream's destructor
  included.
\<close>

definition main :: "config \<Rightarrow> env \<Rightarrow> int \<times> state" where
  "main cfg env =
     (let s = (case body cfg env (initial_state cfg) of Inl s \<Rightarrow> s | Inr s \<Rightarrow> s);
          s' = cleanup env s
      in (0, myfile_destroy s'))"

subsection \<open>Reading a trace\<close>

text \<open>
  The text a trace inserts into the stream. \<open>fmt\<close> is the stream's formatting of a
  \<open>double\<close>; line 83 inserts the header, line 119 the timestamp, a comma, the value and
  \<open>std::endl\<close>.
\<close>

definition header_line :: string where
  "header_line = ''Date and Time , Pressure [PSI]\<newline>''"

definition record_line :: "(double \<Rightarrow> string) \<Rightarrow> string \<Rightarrow> double \<Rightarrow> string" where
  "record_line fmt ts v = ts @ '','' @ fmt v @ ''\<newline>''"

fun render :: "(double \<Rightarrow> string) \<Rightarrow> event \<Rightarrow> string" where
  "render fmt EvFileHeader = header_line"
| "render fmt (EvFileRecord ts v) = record_line fmt ts v"
| "render fmt _ = []"

definition file_text :: "(double \<Rightarrow> string) \<Rightarrow> event list \<Rightarrow> string" where
  "file_text fmt tr = concat (map (render fmt) tr)"

text \<open>
  The text a run puts into the file. A stream whose \<open>open\<close> failed ignores every
  insertion, so nothing is written. An open stream sends its characters to the file in the
  order of insertion; when the storage fails the stream is left in an error state and
  ignores what is inserted afterwards, so the file holds the characters taken until then.
\<close>

fun accepted :: "nat option \<Rightarrow> string \<Rightarrow> string" where
  "accepted None t = t"
| "accepted (Some n) t = take n t"

definition file_written :: "(double \<Rightarrow> string) \<Rightarrow> env \<Rightarrow> event list \<Rightarrow> string" where
  "file_written fmt env tr =
     (if fileOpen env then accepted (fileAccepts env) (file_text fmt tr) else [])"

fun is_file_event :: "event \<Rightarrow> bool" where
  "is_file_event EvFileOpen = True"
| "is_file_event EvFileHeader = True"
| "is_file_event (EvFileRecord ts v) = True"
| "is_file_event EvFileClose = True"
| "is_file_event _ = False"

fun is_stop :: "event \<Rightarrow> bool" where
  "is_stop (EvStopTask h) = True"
| "is_stop _ = False"

fun is_release :: "event \<Rightarrow> bool" where
  "is_release (EvClearTask h) = True"
| "is_release _ = False"


fun is_device_call :: "event \<Rightarrow> bool" where
  "is_device_call EvCreateTask = True"
| "is_device_call (EvCreateAIVoltageChan h) = True"
| "is_device_call (EvCfgSampClkTiming h n) = True"
| "is_device_call (EvStartTask h) = True"
| "is_device_call (EvReadAnalogF64 h n) = True"
| "is_device_call EvGetExtendedErrorInfo = True"
| "is_device_call (EvStopTask h) = True"
| "is_device_call (EvClearTask h) = True"
| "is_device_call _ = False"

text \<open>The values of the records a trace writes to the file, in order.\<close>

fun record_value :: "event \<Rightarrow> double list" where
  "record_value (EvFileRecord ts v) = [v]"
| "record_value _ = []"

definition record_values :: "event list \<Rightarrow> double list" where
  "record_values tr = concat (map record_value tr)"

text \<open>
  The sum of the first \<open>k\<close> values of a buffer: the values added one after the other,
  in the order of the buffer, each addition rounded, starting from \<open>0.0\<close>.
\<close>

primrec sum_first :: "double list \<Rightarrow> nat \<Rightarrow> double" where
  "sum_first v 0 = double_of_nat 0"
| "sum_first v (Suc k) = dadd (sum_first v k) (v ! k)"

subsection \<open>What a run computes\<close>

text \<open>
  Notions used to state the properties. Reads are numbered from 0 over the whole run, so
  pass \<open>i\<close> of the inner loop in pass \<open>j\<close> of the outer loop makes read number
  \<open>j * numberOfBuffers + i\<close>.
\<close>

definition read_ok :: "env \<Rightarrow> nat \<Rightarrow> bool" where
  "read_ok env k = (\<not> DAQmxFailed (status (readAnalogF64 env k)))"

definition started :: "env \<Rightarrow> bool" where
  "started env =
     (\<not> DAQmxFailed (fst (createTask env)) \<and> \<not> DAQmxFailed (createAIVoltageChan env) \<and>
      \<not> DAQmxFailed (cfgSampClkTiming env) \<and> \<not> DAQmxFailed (startTask env))"

definition fault_free :: "config \<Rightarrow> env \<Rightarrow> bool" where
  "fault_free cfg env =
     (started env \<and>
      list_all (read_ok env) [0 ..< unat (numberOfSamples cfg) * unat (numberOfBuffers cfg)])"

text \<open>The contents of \<open>dataBuffer\<close> after \<open>k\<close> reads.\<close>

primrec buffer_after :: "config \<Rightarrow> env \<Rightarrow> nat \<Rightarrow> double list" where
  "buffer_after cfg env 0 = replicate (unat (bufferSize cfg)) (double_of_nat 0)"
| "buffer_after cfg env (Suc k) =
     overlay (samples (readAnalogF64 env k)) (buffer_after cfg env k)"

text \<open>The converted mean of the buffer that read number \<open>k\<close> leaves.\<close>

definition window_value :: "config \<Rightarrow> env \<Rightarrow> nat \<Rightarrow> double" where
  "window_value cfg env k = convert (mean_of (buffer_after cfg env (Suc k)))"

text \<open>The converted means of the reads of pass \<open>j\<close> of the outer loop, and their mean.\<close>

definition interval_windows :: "config \<Rightarrow> env \<Rightarrow> nat \<Rightarrow> double list" where
  "interval_windows cfg env j =
     map (window_value cfg env)
       [j * unat (numberOfBuffers cfg) ..< j * unat (numberOfBuffers cfg) + unat (numberOfBuffers cfg)]"

definition interval_value :: "config \<Rightarrow> env \<Rightarrow> nat \<Rightarrow> double" where
  "interval_value cfg env j = mean_of (interval_windows cfg env j)"

text \<open>What a successful read and a completed pass of the outer loop add to the trace.\<close>

definition window_events :: "config \<Rightarrow> env \<Rightarrow> nat \<Rightarrow> event list" where
  "window_events cfg env k =
     [EvReadAnalogF64 (snd (createTask env)) (bufferSize cfg),
      EvCoutMean (window_value cfg env k) (sampsRead (readAnalogF64 env k))]"

definition interval_events :: "config \<Rightarrow> env \<Rightarrow> nat \<Rightarrow> event list" where
  "interval_events cfg env j =
     concat (map (window_events cfg env)
       [j * unat (numberOfBuffers cfg) ..< j * unat (numberOfBuffers cfg) + unat (numberOfBuffers cfg)])
     @ [EvCoutInterval (interval_value cfg env j),
        EvFileRecord (current_time env j) (interval_value cfg env j)]"

definition start_events :: "config \<Rightarrow> env \<Rightarrow> event list" where
  "start_events cfg env =
     [EvCreateTask,
      EvCreateAIVoltageChan (snd (createTask env)),
      EvCfgSampClkTiming (snd (createTask env)) (bufferSize cfg),
      EvStartTask (snd (createTask env)),
      EvCoutStart, EvFileOpen, EvFileHeader]"

definition release_events :: "env \<Rightarrow> event list" where
  "release_events env =
     (if snd (createTask env) \<noteq> 0
      then [EvStopTask (snd (createTask env)), EvClearTask (snd (createTask env))]
      else [])"

text \<open>The number of the first read of the run whose status is a failure, if there is one.\<close>

definition first_failed_read :: "config \<Rightarrow> env \<Rightarrow> nat option" where
  "first_failed_read cfg env =
     find (\<lambda>k. \<not> read_ok env k) [0 ..< unat (numberOfSamples cfg) * unat (numberOfBuffers cfg)]"

text \<open>How many passes of the outer loop run to their end.\<close>

definition completed_intervals :: "config \<Rightarrow> env \<Rightarrow> nat" where
  "completed_intervals cfg env =
     (case first_failed_read cfg env of
        None \<Rightarrow> unat (numberOfSamples cfg)
      | Some k \<Rightarrow> k div unat (numberOfBuffers cfg))"

text \<open>The driver calls of lines 68-77, up to and including the first that fails.\<close>

definition start_calls :: "config \<Rightarrow> env \<Rightarrow> event list" where
  "start_calls cfg env =
     EvCreateTask #
     (if DAQmxFailed (fst (createTask env)) then []
      else EvCreateAIVoltageChan (snd (createTask env)) #
        (if DAQmxFailed (createAIVoltageChan env) then []
         else EvCfgSampClkTiming (snd (createTask env)) (bufferSize cfg) #
           (if DAQmxFailed (cfgSampClkTiming env) then []
            else [EvStartTask (snd (createTask env))])))"

text \<open>What the code at \<open>Error\<close> does after a failure.\<close>

definition error_events :: "env \<Rightarrow> event list" where
  "error_events env =
     [EvGetExtendedErrorInfo] @ release_events env @ [EvPrintfError (extendedErrorInfo env)]"

text \<open>
  The trace of a whole run, written out from the answers of the driver. It is shown below to
  be the trace that \<open>main\<close> produces.
\<close>

definition run_trace :: "config \<Rightarrow> env \<Rightarrow> event list" where
  "run_trace cfg env =
     (if \<not> started env then start_calls cfg env @ error_events env
      else case first_failed_read cfg env of
          None \<Rightarrow>
            start_events cfg env
            @ concat (map (interval_events cfg env) [0 ..< unat (numberOfSamples cfg)])
            @ [EvFileClose] @ release_events env
        | Some k \<Rightarrow>
            start_events cfg env
            @ concat (map (interval_events cfg env) [0 ..< k div unat (numberOfBuffers cfg)])
            @ concat (map (window_events cfg env)
                [k div unat (numberOfBuffers cfg) * unat (numberOfBuffers cfg) ..< k])
            @ [EvReadAnalogF64 (snd (createTask env)) (bufferSize cfg)]
            @ error_events env @ (if fileOpen env then [EvFileClose] else []))"

text \<open>The state at the start of pass \<open>j\<close> of the outer loop.\<close>

definition at_interval :: "config \<Rightarrow> env \<Rightarrow> nat \<Rightarrow> state \<Rightarrow> bool" where
  "at_interval cfg env j s =
     (read_calls s = j * unat (numberOfBuffers cfg) \<and> clock_calls s = j \<and>
      dataBuffer s = buffer_after cfg env (j * unat (numberOfBuffers cfg)) \<and>
      length (bufferAverages s) = unat (numberOfBuffers cfg) \<and>
      taskHandle s = snd (createTask env) \<and> \<not> DAQmxFailed (error s))"

subsection \<open>Example runs\<close>

text \<open>
  A small configuration and a driver that answers every call with success and every read
  with the four samples 1, 3, 1, 3 volts.
\<close>

definition scenario_cfg :: config where
  "scenario_cfg = \<lparr>bufferSize = 4, numberOfBuffers = 2, numberOfSamples = 2\<rparr>"

definition full_read :: read_outcome where
  "full_read =
     \<lparr>status = 0, samples = map double_of_nat [1, 3, 1, 3], sampsRead = 4\<rparr>"

definition scenario_env :: env where
  "scenario_env =
     \<lparr>createTask = (0, 7), createAIVoltageChan = 0, cfgSampClkTiming = 0, startTask = 0,
      readAnalogF64 = (\<lambda>k. full_read),
      extendedErrorInfo = ''Device not found'',
      current_time = (\<lambda>k. if k = 0 then ''2021-03-05 10:01:00'' else ''2021-03-05 10:02:00''),
      fileOpen = True, fileAccepts = None\<rparr>"

definition timeout_read :: read_outcome where
  "timeout_read = \<lparr>status = - 200284, samples = [], sampsRead = 0\<rparr>"

definition failing_env :: env where
  "failing_env = scenario_env\<lparr>readAnalogF64 := \<lambda>k. if k = 3 then timeout_read else full_read\<rparr>"

definition no_task_env :: env where
  "no_task_env = scenario_env\<lparr>createTask := (- 1, 0)\<rparr>"

definition no_start_env :: env where
  "no_start_env = scenario_env\<lparr>startTask := - 1\<rparr>"



definition empty_buffer_cfg :: config where
  "empty_buffer_cfg = \<lparr>bufferSize = 0, numberOfBuffers = 1, numberOfSamples = 1\<rparr>"

definition empty_env :: env where
  "empty_env = scenario_env\<lparr>readAnalogF64 :=
      \<lambda>k. \<lparr>status = 0, samples = [], sampsRead = 0\<rparr>\<rparr>"

definition no_buffers_cfg :: config where
  "no_buffers_cfg = \<lparr>bufferSize = 4, numberOfBuffers = 0, numberOfSamples = 1\<rparr>"


definition no_file_env :: env where
  "no_file_env = scenario_env\<lparr>fileOpen := False\<rparr>"

definition no_file_failing_env :: env where
  "no_file_failing_env = failing_env\<lparr>fileOpen := False\<rparr>"

definition full_disk_env :: env where
  "full_disk_env = scenario_env\<lparr>fileAccepts := Some 13\<rparr>"

definition tiny_buffer_cfg :: config where
  "tiny_buffer_cfg = \<lparr>bufferSize = 0, numberOfBuffers = 2, numberOfSamples = 2\<rparr>"

section \<open>Properties\<close>

subsection \<open>The loops and the run, step by step\<close>

text \<open>
  Each part of the program is followed from the state it starts in to the state it leaves:
  one pass of the inner loop, the inner loop, one pass of the outer loop, the outer loop,
  the start of the acquisition, the code before \<open>Error\<close> and the code at \<open>Error\<close>.
  A part either falls through, when every read it makes succeeds, or jumps to \<open>Error\<close>
  at the first read that fails. The last lemma of the subsection puts the parts together:
  the trace of \<open>main\<close> is \<open>run_trace\<close>, for every configuration and every driver.
\<close>

lemma emit_simps [simp]:
  "trace (emit e s) = trace s @ [e]"
  "error (emit e s) = error s"
  "taskHandle (emit e s) = taskHandle s"
  "errBuff (emit e s) = errBuff s"
  "reads (emit e s) = reads s"
  "dataBuffer (emit e s) = dataBuffer s"
  "bufferAverages (emit e s) = bufferAverages s"
  "myfile_open (emit e s) = myfile_open s"
  "read_calls (emit e s) = read_calls s"
  "clock_calls (emit e s) = clock_calls s"
  by (simp_all add: emit_def)

lemma length_overlay [simp]: "length (overlay new old) = length old"
  by (simp add: overlay_def)

lemma length_buffer_after [simp]: "length (buffer_after cfg env k) = unat (bufferSize cfg)"
  by (induction k) simp_all

lemma inner_body_ok:
  assumes "read_ok env (read_calls s)"
  shows "\<exists>s'. inner_body cfg env bufferi s = Inr s' \<and>
     trace s' = trace s @ [EvReadAnalogF64 (taskHandle s) (bufferSize cfg),
        EvCoutMean (convert (mean_of (overlay (samples (readAnalogF64 env (read_calls s))) (dataBuffer s))))
                   (sampsRead (readAnalogF64 env (read_calls s)))] \<and>
     dataBuffer s' = overlay (samples (readAnalogF64 env (read_calls s))) (dataBuffer s) \<and>
     bufferAverages s' = (bufferAverages s)[unat bufferi :=
        convert (mean_of (overlay (samples (readAnalogF64 env (read_calls s))) (dataBuffer s)))] \<and>
     read_calls s' = Suc (read_calls s) \<and> clock_calls s' = clock_calls s \<and>
     taskHandle s' = taskHandle s \<and> myfile_open s' = myfile_open s \<and>
     \<not> DAQmxFailed (error s')"
  using assms
  by (simp add: inner_body_def read_ok_def DAQmxErrChk_def and_then_def Let_def)

lemma inner_body_fail:
  assumes "\<not> read_ok env (read_calls s)"
  shows "\<exists>s'. inner_body cfg env bufferi s = Inl s' \<and>
     trace s' = trace s @ [EvReadAnalogF64 (taskHandle s) (bufferSize cfg)] \<and>
     taskHandle s' = taskHandle s \<and> myfile_open s' = myfile_open s \<and>
     DAQmxFailed (error s')"
  using assms
  by (simp add: inner_body_def read_ok_def DAQmxErrChk_def and_then_def Let_def)

lemma unat_succ_below: "unat (i::'a::len word) < unat (n::'a word) \<Longrightarrow> unat (i + 1) = Suc (unat i)"
proof -
  assume a: "unat i < unat n"
  have "unat n < 2 ^ LENGTH('a)" by (rule unsigned_less)
  moreover from a have "Suc (unat i) \<le> unat n" by simp
  ultimately have "unat i + 1 < 2 ^ LENGTH('a)" by (simp only: Suc_eq_plus1 [symmetric] le_less_trans)
  then show ?thesis by (simp add: unat_word_ariths)
qed

lemma take_Suc_update: "i < length xs \<Longrightarrow> take (Suc i) (xs[i := w]) = take i xs @ [w]"
  by (simp add: take_Suc_conv_app_nth)

lemma inner_loop_ok:
  assumes "unat bufferi + m = unat (numberOfBuffers cfg)"
    and "\<forall>k<m. read_ok env (read_calls s + k)"
    and "dataBuffer s = buffer_after cfg env (read_calls s)"
    and "length (bufferAverages s) = unat (numberOfBuffers cfg)"
    and "taskHandle s = snd (createTask env)"
    and "\<not> DAQmxFailed (error s)"
  shows "\<exists>s'. inner_loop cfg env bufferi s = Inr s' \<and>
     trace s' = trace s @ concat (map (window_events cfg env) [read_calls s ..< read_calls s + m]) \<and>
     dataBuffer s' = buffer_after cfg env (read_calls s + m) \<and>
     bufferAverages s' = take (unat bufferi) (bufferAverages s)
        @ map (window_value cfg env) [read_calls s ..< read_calls s + m] \<and>
     read_calls s' = read_calls s + m \<and> clock_calls s' = clock_calls s \<and>
     taskHandle s' = taskHandle s \<and> myfile_open s' = myfile_open s \<and>
     \<not> DAQmxFailed (error s')"
  using assms
proof (induction m arbitrary: bufferi s)
  case 0
  then have "bufferi = numberOfBuffers cfg" by (simp add: word_unat_eq_iff)
  with 0 show ?case by simp
next
  case (Suc m)
  from Suc.prems(1) have lt: "unat bufferi < unat (numberOfBuffers cfg)" by simp
  then have ne: "bufferi \<noteq> numberOfBuffers cfg" by auto
  from lt have su: "unat (bufferi + 1) = Suc (unat bufferi)" by (rule unat_succ_below)
  from Suc.prems(2) have ok0: "read_ok env (read_calls s)" by force
  from inner_body_ok [OF ok0, of cfg bufferi] obtain s1 where
    b: "inner_body cfg env bufferi s = Inr s1"
    and t1: "trace s1 = trace s @ [EvReadAnalogF64 (taskHandle s) (bufferSize cfg),
        EvCoutMean (convert (mean_of (overlay (samples (readAnalogF64 env (read_calls s))) (dataBuffer s))))
                   (sampsRead (readAnalogF64 env (read_calls s)))]"
    and d1: "dataBuffer s1 = overlay (samples (readAnalogF64 env (read_calls s))) (dataBuffer s)"
    and a1: "bufferAverages s1 = (bufferAverages s)[unat bufferi :=
        convert (mean_of (overlay (samples (readAnalogF64 env (read_calls s))) (dataBuffer s)))]"
    and r1: "read_calls s1 = Suc (read_calls s)" and c1: "clock_calls s1 = clock_calls s"
    and h1: "taskHandle s1 = taskHandle s" and f1: "myfile_open s1 = myfile_open s"
    and e1: "\<not> DAQmxFailed (error s1)"
    by blast
  have d1': "dataBuffer s1 = buffer_after cfg env (read_calls s1)"
    using d1 r1 Suc.prems(3) by simp
  have w: "convert (mean_of (overlay (samples (readAnalogF64 env (read_calls s))) (dataBuffer s)))
      = window_value cfg env (read_calls s)"
    using Suc.prems(3) by (simp add: window_value_def)
  have p1: "unat (bufferi + 1) + m = unat (numberOfBuffers cfg)"
    using su Suc.prems(1) by simp
  have p2: "\<forall>k<m. read_ok env (read_calls s1 + k)"
    using Suc.prems(2) r1 by (metis Suc_less_eq add_Suc_shift)
  have p4: "length (bufferAverages s1) = unat (numberOfBuffers cfg)"
    using a1 Suc.prems(4) by simp
  have p5: "taskHandle s1 = snd (createTask env)" using h1 Suc.prems(5) by simp
  from Suc.IH [OF p1 p2 d1' p4 p5 e1] obtain s' where
    l: "inner_loop cfg env (bufferi + 1) s1 = Inr s'"
    and t: "trace s' = trace s1 @ concat (map (window_events cfg env) [read_calls s1 ..< read_calls s1 + m])"
    and d: "dataBuffer s' = buffer_after cfg env (read_calls s1 + m)"
    and a: "bufferAverages s' = take (unat (bufferi + 1)) (bufferAverages s1)
        @ map (window_value cfg env) [read_calls s1 ..< read_calls s1 + m]"
    and r: "read_calls s' = read_calls s1 + m" and c: "clock_calls s' = clock_calls s1"
    and h: "taskHandle s' = taskHandle s1" and f: "myfile_open s' = myfile_open s1"
    and e: "\<not> DAQmxFailed (error s')"
    by blast
  have loop: "inner_loop cfg env bufferi s = Inr s'"
    using ne b l by (subst inner_loop.simps) simp
  have up: "[read_calls s ..< read_calls s + Suc m] = read_calls s # [Suc (read_calls s) ..< Suc (read_calls s) + m]"
    by (simp add: upt_conv_Cons)
  have tr: "trace s' = trace s @ concat (map (window_events cfg env) [read_calls s ..< read_calls s + Suc m])"
    unfolding up using t t1 r1 w Suc.prems(5) by (simp add: window_events_def)
  have av: "bufferAverages s' = take (unat bufferi) (bufferAverages s)
        @ map (window_value cfg env) [read_calls s ..< read_calls s + Suc m]"
    unfolding up using a a1 su r1 w lt Suc.prems(4) by (simp add: take_Suc_update)
  show ?case
    using loop tr av d r c h f e r1 c1 h1 f1 by simp
qed

lemma inner_loop_fail:
  assumes "unat bufferi + m = unat (numberOfBuffers cfg)"
    and "f < m"
    and "\<forall>k<f. read_ok env (read_calls s + k)"
    and "\<not> read_ok env (read_calls s + f)"
    and "dataBuffer s = buffer_after cfg env (read_calls s)"
    and "taskHandle s = snd (createTask env)"
  shows "\<exists>s'. inner_loop cfg env bufferi s = Inl s' \<and>
     trace s' = trace s @ concat (map (window_events cfg env) [read_calls s ..< read_calls s + f])
        @ [EvReadAnalogF64 (snd (createTask env)) (bufferSize cfg)] \<and>
     taskHandle s' = taskHandle s \<and> myfile_open s' = myfile_open s \<and>
     DAQmxFailed (error s')"
  using assms
proof (induction f arbitrary: m bufferi s)
  case 0
  from 0(1,2) have lt: "unat bufferi < unat (numberOfBuffers cfg)" by simp
  then have ne: "bufferi \<noteq> numberOfBuffers cfg" by auto
  from 0(4) have bad: "\<not> read_ok env (read_calls s)" by simp
  from inner_body_fail [OF bad, of cfg bufferi] obtain s' where
    b: "inner_body cfg env bufferi s = Inl s'"
    and t: "trace s' = trace s @ [EvReadAnalogF64 (taskHandle s) (bufferSize cfg)]"
    and r: "taskHandle s' = taskHandle s" "myfile_open s' = myfile_open s" "DAQmxFailed (error s')"
    by blast
  have "inner_loop cfg env bufferi s = Inl s'"
    using ne b by (subst inner_loop.simps) simp
  then show ?case using t r 0(6) by simp
next
  case (Suc f)
  from Suc.prems(1,2) have lt: "unat bufferi < unat (numberOfBuffers cfg)" by simp
  then have ne: "bufferi \<noteq> numberOfBuffers cfg" by auto
  from lt have su: "unat (bufferi + 1) = Suc (unat bufferi)" by (rule unat_succ_below)
  from Suc.prems(3) have ok0: "read_ok env (read_calls s)" by force
  from inner_body_ok [OF ok0, of cfg bufferi] obtain s1 where
    b: "inner_body cfg env bufferi s = Inr s1"
    and t1: "trace s1 = trace s @ [EvReadAnalogF64 (taskHandle s) (bufferSize cfg),
        EvCoutMean (convert (mean_of (overlay (samples (readAnalogF64 env (read_calls s))) (dataBuffer s))))
                   (sampsRead (readAnalogF64 env (read_calls s)))]"
    and d1: "dataBuffer s1 = overlay (samples (readAnalogF64 env (read_calls s))) (dataBuffer s)"
    and r1: "read_calls s1 = Suc (read_calls s)"
    and h1: "taskHandle s1 = taskHandle s" and f1: "myfile_open s1 = myfile_open s"
    by blast
  have d1': "dataBuffer s1 = buffer_after cfg env (read_calls s1)"
    using d1 r1 Suc.prems(5) by simp
  have w: "convert (mean_of (overlay (samples (readAnalogF64 env (read_calls s))) (dataBuffer s)))
      = window_value cfg env (read_calls s)"
    using Suc.prems(5) by (simp add: window_value_def)
  obtain m' where m': "m = Suc m'" using Suc.prems(2) by (cases m) simp_all
  have p1: "unat (bufferi + 1) + m' = unat (numberOfBuffers cfg)"
    using su Suc.prems(1) m' by simp
  have p2: "f < m'" using Suc.prems(2) m' by simp
  have p3: "\<forall>k<f. read_ok env (read_calls s1 + k)"
    using Suc.prems(3) r1 by (metis Suc_less_eq add_Suc_shift)
  have p4: "\<not> read_ok env (read_calls s1 + f)" using Suc.prems(4) r1 by simp
  have p6: "taskHandle s1 = snd (createTask env)" using h1 Suc.prems(6) by simp
  from Suc.IH [OF p1 p2 p3 p4 d1' p6] obtain s' where
    l: "inner_loop cfg env (bufferi + 1) s1 = Inl s'"
    and t: "trace s' = trace s1 @ concat (map (window_events cfg env) [read_calls s1 ..< read_calls s1 + f])
        @ [EvReadAnalogF64 (snd (createTask env)) (bufferSize cfg)]"
    and r: "taskHandle s' = taskHandle s1" "myfile_open s' = myfile_open s1" "DAQmxFailed (error s')"
    by blast
  have loop: "inner_loop cfg env bufferi s = Inl s'"
    using ne b l by (subst inner_loop.simps) simp
  have up: "[read_calls s ..< read_calls s + Suc f] = read_calls s # [Suc (read_calls s) ..< Suc (read_calls s) + f]"
    by (simp add: upt_conv_Cons)
  have tr: "trace s' = trace s @ concat (map (window_events cfg env) [read_calls s ..< read_calls s + Suc f])
        @ [EvReadAnalogF64 (snd (createTask env)) (bufferSize cfg)]"
    unfolding up using t t1 r1 w Suc.prems(6) by (simp add: window_events_def)
  show ?case using loop tr r h1 f1 by simp
qed

lemma outer_body_ok:
  assumes inv: "at_interval cfg env j s"
    and ok: "\<forall>k<unat (numberOfBuffers cfg). read_ok env (j * unat (numberOfBuffers cfg) + k)"
  shows "\<exists>s'. outer_body cfg env s = Inr s' \<and>
     trace s' = trace s @ interval_events cfg env j \<and>
     at_interval cfg env (Suc j) s' \<and> myfile_open s' = myfile_open s"
proof -
  let ?nb = "unat (numberOfBuffers cfg)"
  from inv have rc: "read_calls s = j * ?nb" and cc: "clock_calls s = j"
    and db: "dataBuffer s = buffer_after cfg env (read_calls s)"
    and la: "length (bufferAverages s) = ?nb"
    and th: "taskHandle s = snd (createTask env)" and ne: "\<not> DAQmxFailed (error s)"
    by (simp_all add: at_interval_def)
  have z: "unat (0::size_t) + ?nb = ?nb" by simp
  from ok rc have ok': "\<forall>k<?nb. read_ok env (read_calls s + k)" by simp
  from inner_loop_ok [OF z ok' db la th ne] obtain s1 where
    l: "inner_loop cfg env 0 s = Inr s1"
    and t: "trace s1 = trace s @ concat (map (window_events cfg env) [read_calls s ..< read_calls s + ?nb])"
    and d: "dataBuffer s1 = buffer_after cfg env (read_calls s + ?nb)"
    and a: "bufferAverages s1 = take (unat (0::size_t)) (bufferAverages s)
        @ map (window_value cfg env) [read_calls s ..< read_calls s + ?nb]"
    and r: "read_calls s1 = read_calls s + ?nb" and c: "clock_calls s1 = clock_calls s"
    and h: "taskHandle s1 = taskHandle s" and f: "myfile_open s1 = myfile_open s"
    and e: "\<not> DAQmxFailed (error s1)"
    by blast
  have a': "bufferAverages s1 = interval_windows cfg env j"
    using a rc by (simp add: interval_windows_def)
  show ?thesis
    using l t d a' r c h f e rc cc th
    by (simp add: outer_body_def and_then_def Let_def interval_events_def interval_value_def
        at_interval_def interval_windows_def add.commute)
qed

lemma outer_body_fail:
  assumes inv: "at_interval cfg env j s"
    and f: "f < unat (numberOfBuffers cfg)"
    and ok: "\<forall>k<f. read_ok env (j * unat (numberOfBuffers cfg) + k)"
    and bad: "\<not> read_ok env (j * unat (numberOfBuffers cfg) + f)"
  shows "\<exists>s'. outer_body cfg env s = Inl s' \<and>
     trace s' = trace s @ concat (map (window_events cfg env)
          [j * unat (numberOfBuffers cfg) ..< j * unat (numberOfBuffers cfg) + f])
        @ [EvReadAnalogF64 (snd (createTask env)) (bufferSize cfg)] \<and>
     taskHandle s' = snd (createTask env) \<and> myfile_open s' = myfile_open s \<and>
     DAQmxFailed (error s')"
proof -
  let ?nb = "unat (numberOfBuffers cfg)"
  from inv have rc: "read_calls s = j * ?nb"
    and db: "dataBuffer s = buffer_after cfg env (read_calls s)"
    and th: "taskHandle s = snd (createTask env)"
    by (simp_all add: at_interval_def)
  have z: "unat (0::size_t) + ?nb = ?nb" by simp
  from ok rc have ok': "\<forall>k<f. read_ok env (read_calls s + k)" by simp
  from bad rc have bad': "\<not> read_ok env (read_calls s + f)" by simp
  from inner_loop_fail [OF z f ok' bad' db th] obtain s' where
    "inner_loop cfg env 0 s = Inl s'"
    "trace s' = trace s @ concat (map (window_events cfg env) [read_calls s ..< read_calls s + f])
        @ [EvReadAnalogF64 (snd (createTask env)) (bufferSize cfg)]"
    "taskHandle s' = taskHandle s" "myfile_open s' = myfile_open s" "DAQmxFailed (error s')"
    by blast
  then show ?thesis using rc th by (simp add: outer_body_def and_then_def)
qed

lemma outer_loop_ok:
  assumes "unat samplei + m = unat (numberOfSamples cfg)"
    and "at_interval cfg env j s"
    and "\<forall>k<m * unat (numberOfBuffers cfg). read_ok env (j * unat (numberOfBuffers cfg) + k)"
  shows "\<exists>s'. outer_loop cfg env samplei s = Inr s' \<and>
     trace s' = trace s @ concat (map (interval_events cfg env) [j ..< j + m]) \<and>
     at_interval cfg env (j + m) s' \<and> myfile_open s' = myfile_open s"
  using assms
proof (induction m arbitrary: samplei s j)
  case 0
  then have "samplei = numberOfSamples cfg" by (simp add: word_unat_eq_iff)
  with 0 show ?case by simp
next
  case (Suc m)
  let ?nb = "unat (numberOfBuffers cfg)"
  from Suc.prems(1) have lt: "unat samplei < unat (numberOfSamples cfg)" by simp
  then have ne: "samplei \<noteq> numberOfSamples cfg" by auto
  from lt have su: "unat (samplei + 1) = Suc (unat samplei)" by (rule unat_succ_below)
  have ok0: "\<forall>k<?nb. read_ok env (j * ?nb + k)"
    using Suc.prems(3) by simp
  from outer_body_ok [OF Suc.prems(2) ok0] obtain s1 where
    b: "outer_body cfg env s = Inr s1"
    and t1: "trace s1 = trace s @ interval_events cfg env j"
    and i1: "at_interval cfg env (Suc j) s1" and f1: "myfile_open s1 = myfile_open s"
    by blast
  have p1: "unat (samplei + 1) + m = unat (numberOfSamples cfg)"
    using su Suc.prems(1) by simp
  have p3: "\<forall>k<m * ?nb. read_ok env (Suc j * ?nb + k)"
  proof (intro allI impI)
    fix k assume "k < m * ?nb"
    then have "?nb + k < Suc m * ?nb" by simp
    with Suc.prems(3) have "read_ok env (j * ?nb + (?nb + k))" by blast
    then show "read_ok env (Suc j * ?nb + k)" by (simp add: add.assoc add.left_commute)
  qed
  from Suc.IH [OF p1 i1 p3] obtain s' where
    l: "outer_loop cfg env (samplei + 1) s1 = Inr s'"
    and t: "trace s' = trace s1 @ concat (map (interval_events cfg env) [Suc j ..< Suc j + m])"
    and i: "at_interval cfg env (Suc j + m) s'" and f: "myfile_open s' = myfile_open s1"
    by blast
  have loop: "outer_loop cfg env samplei s = Inr s'"
    using ne b l by (subst outer_loop.simps) simp
  have up: "[j ..< j + Suc m] = j # [Suc j ..< Suc j + m]"
    by (simp add: upt_conv_Cons)
  show ?case
    unfolding up using loop t t1 i f f1 by simp
qed

lemma outer_loop_fail:
  assumes "unat samplei + m = unat (numberOfSamples cfg)"
    and "at_interval cfg env j s"
    and "d < m" and "f < unat (numberOfBuffers cfg)"
    and "\<forall>k<d * unat (numberOfBuffers cfg) + f. read_ok env (j * unat (numberOfBuffers cfg) + k)"
    and "\<not> read_ok env (j * unat (numberOfBuffers cfg) + (d * unat (numberOfBuffers cfg) + f))"
  shows "\<exists>s'. outer_loop cfg env samplei s = Inl s' \<and>
     trace s' = trace s @ concat (map (interval_events cfg env) [j ..< j + d])
        @ concat (map (window_events cfg env)
            [(j + d) * unat (numberOfBuffers cfg) ..< (j + d) * unat (numberOfBuffers cfg) + f])
        @ [EvReadAnalogF64 (snd (createTask env)) (bufferSize cfg)] \<and>
     taskHandle s' = snd (createTask env) \<and> myfile_open s' = myfile_open s \<and>
     DAQmxFailed (error s')"
  using assms
proof (induction d arbitrary: m samplei s j)
  case 0
  from 0(1,3) have lt: "unat samplei < unat (numberOfSamples cfg)" by simp
  then have ne: "samplei \<noteq> numberOfSamples cfg" by auto
  from 0(5) have ok: "\<forall>k<f. read_ok env (j * unat (numberOfBuffers cfg) + k)" by simp
  from 0(6) have bad: "\<not> read_ok env (j * unat (numberOfBuffers cfg) + f)" by simp
  from outer_body_fail [OF 0(2) 0(4) ok bad] obtain s' where
    b: "outer_body cfg env s = Inl s'"
    and r: "trace s' = trace s @ concat (map (window_events cfg env)
          [j * unat (numberOfBuffers cfg) ..< j * unat (numberOfBuffers cfg) + f])
        @ [EvReadAnalogF64 (snd (createTask env)) (bufferSize cfg)]"
      "taskHandle s' = snd (createTask env)" "myfile_open s' = myfile_open s"
      "DAQmxFailed (error s')"
    by blast
  have "outer_loop cfg env samplei s = Inl s'"
    using ne b by (subst outer_loop.simps) simp
  then show ?case using r by simp
next
  case (Suc d)
  let ?nb = "unat (numberOfBuffers cfg)"
  from Suc.prems(1,3) have lt: "unat samplei < unat (numberOfSamples cfg)" by simp
  then have ne: "samplei \<noteq> numberOfSamples cfg" by auto
  from lt have su: "unat (samplei + 1) = Suc (unat samplei)" by (rule unat_succ_below)
  have ok0: "\<forall>k<?nb. read_ok env (j * ?nb + k)"
    using Suc.prems(5) by simp
  from outer_body_ok [OF Suc.prems(2) ok0] obtain s1 where
    b: "outer_body cfg env s = Inr s1"
    and t1: "trace s1 = trace s @ interval_events cfg env j"
    and i1: "at_interval cfg env (Suc j) s1" and f1: "myfile_open s1 = myfile_open s"
    by blast
  obtain m' where m': "m = Suc m'" using Suc.prems(3) by (cases m) simp_all
  have p1: "unat (samplei + 1) + m' = unat (numberOfSamples cfg)"
    using su Suc.prems(1) m' by simp
  have p3: "d < m'" using Suc.prems(3) m' by simp
  have p5: "\<forall>k<d * ?nb + f. read_ok env (Suc j * ?nb + k)"
  proof (intro allI impI)
    fix k assume "k < d * ?nb + f"
    then have "?nb + k < Suc d * ?nb + f" by simp
    with Suc.prems(5) have "read_ok env (j * ?nb + (?nb + k))" by blast
    then show "read_ok env (Suc j * ?nb + k)" by (simp add: add.assoc add.left_commute)
  qed
  have p6: "\<not> read_ok env (Suc j * ?nb + (d * ?nb + f))"
    using Suc.prems(6) by (simp add: add.assoc add.left_commute)
  from Suc.IH [OF p1 i1 p3 Suc.prems(4) p5 p6] obtain s' where
    l: "outer_loop cfg env (samplei + 1) s1 = Inl s'"
    and t: "trace s' = trace s1 @ concat (map (interval_events cfg env) [Suc j ..< Suc j + d])
        @ concat (map (window_events cfg env) [(Suc j + d) * ?nb ..< (Suc j + d) * ?nb + f])
        @ [EvReadAnalogF64 (snd (createTask env)) (bufferSize cfg)]"
    and r: "taskHandle s' = snd (createTask env)" "myfile_open s' = myfile_open s1"
      "DAQmxFailed (error s')"
    by blast
  have loop: "outer_loop cfg env samplei s = Inl s'"
    using ne b l by (subst outer_loop.simps) simp
  have up: "[j ..< j + Suc d] = j # [Suc j ..< Suc j + d]"
    by (simp add: upt_conv_Cons)
  show ?case
    unfolding up using loop t t1 r f1 by simp
qed

lemma start_ok:
  assumes "started env"
  shows "\<exists>s. start_acquisition cfg env (initial_state cfg) = Inr s \<and>
     trace s = [EvCreateTask, EvCreateAIVoltageChan (snd (createTask env)),
        EvCfgSampClkTiming (snd (createTask env)) (bufferSize cfg),
        EvStartTask (snd (createTask env))] \<and>
     at_interval cfg env 0 s \<and> \<not> myfile_open s"
  using assms
  by (simp add: started_def start_acquisition_def DAQmxErrChk_def and_then_def Let_def
      initial_state_def at_interval_def emit_def)

lemma start_fail:
  assumes "\<not> started env"
  shows "\<exists>s. start_acquisition cfg env (initial_state cfg) = Inl s \<and>
     trace s = start_calls cfg env \<and> taskHandle s = snd (createTask env) \<and>
     \<not> myfile_open s \<and> DAQmxFailed (error s)"
  using assms
  by (auto simp add: started_def start_acquisition_def DAQmxErrChk_def and_then_def Let_def
      initial_state_def emit_def start_calls_def)

lemma start_calls_started:
  "started env \<Longrightarrow> start_calls cfg env @ [EvCoutStart, EvFileOpen, EvFileHeader] = start_events cfg env"
  by (simp add: started_def start_calls_def start_events_def)

lemma body_not_started:
  assumes "\<not> started env"
  shows "\<exists>s. body cfg env (initial_state cfg) = Inl s \<and>
     trace s = start_calls cfg env \<and> taskHandle s = snd (createTask env) \<and>
     \<not> myfile_open s \<and> DAQmxFailed (error s)"
  using start_fail [OF assms, of cfg] by (auto simp add: body_def and_then_def)

lemma file_opened:
  assumes "start_acquisition cfg env (initial_state cfg) = Inr s1"
    and "trace s1 = [EvCreateTask, EvCreateAIVoltageChan (snd (createTask env)),
        EvCfgSampClkTiming (snd (createTask env)) (bufferSize cfg),
        EvStartTask (snd (createTask env))]"
    and "at_interval cfg env 0 s1"
  shows "body cfg env (initial_state cfg) =
      and_then (outer_loop cfg env 0
         (emit EvFileHeader ((emit EvFileOpen (emit EvCoutStart s1))\<lparr>myfile_open := fileOpen env\<rparr>)))
        (\<lambda>s5. Inr (myfile_close s5))"
    and "trace (emit EvFileHeader ((emit EvFileOpen (emit EvCoutStart s1))\<lparr>myfile_open := fileOpen env\<rparr>))
       = start_events cfg env"
    and "at_interval cfg env 0
       (emit EvFileHeader ((emit EvFileOpen (emit EvCoutStart s1))\<lparr>myfile_open := fileOpen env\<rparr>))"
    and "myfile_open (emit EvFileHeader ((emit EvFileOpen (emit EvCoutStart s1))\<lparr>myfile_open := fileOpen env\<rparr>))
       = fileOpen env"
  using assms
  by (simp_all add: body_def and_then_def Let_def start_events_def at_interval_def)

lemma body_ok:
  assumes st: "started env"
    and ok: "\<forall>k<unat (numberOfSamples cfg) * unat (numberOfBuffers cfg). read_ok env k"
  shows "\<exists>s. body cfg env (initial_state cfg) = Inr s \<and>
     trace s = start_events cfg env
       @ concat (map (interval_events cfg env) [0 ..< unat (numberOfSamples cfg)])
       @ [EvFileClose] \<and>
     taskHandle s = snd (createTask env) \<and> \<not> myfile_open s \<and> \<not> DAQmxFailed (error s)"
proof -
  from start_ok [OF st, of cfg] obtain s1 where
    s1: "start_acquisition cfg env (initial_state cfg) = Inr s1"
      "trace s1 = [EvCreateTask, EvCreateAIVoltageChan (snd (createTask env)),
        EvCfgSampClkTiming (snd (createTask env)) (bufferSize cfg),
        EvStartTask (snd (createTask env))]"
      "at_interval cfg env 0 s1"
    by blast
  let ?s4 = "emit EvFileHeader ((emit EvFileOpen (emit EvCoutStart s1))\<lparr>myfile_open := fileOpen env\<rparr>)"
  note fo = file_opened [OF s1]
  have z: "unat (0::size_t) + unat (numberOfSamples cfg) = unat (numberOfSamples cfg)" by simp
  from ok have ok': "\<forall>k<unat (numberOfSamples cfg) * unat (numberOfBuffers cfg).
      read_ok env (0 * unat (numberOfBuffers cfg) + k)" by simp
  from outer_loop_ok [OF z fo(3) ok'] obtain s5 where
    l: "outer_loop cfg env 0 ?s4 = Inr s5"
    and t: "trace s5 = trace ?s4 @ concat (map (interval_events cfg env) [0 ..< 0 + unat (numberOfSamples cfg)])"
    and i: "at_interval cfg env (0 + unat (numberOfSamples cfg)) s5"
    and f: "myfile_open s5 = myfile_open ?s4"
    by blast
  have "body cfg env (initial_state cfg) = Inr (myfile_close s5)"
    using fo(1) l by (simp add: and_then_def)
  moreover have "trace (myfile_close s5) = start_events cfg env
       @ concat (map (interval_events cfg env) [0 ..< unat (numberOfSamples cfg)]) @ [EvFileClose]"
    using t fo(2) by (simp add: myfile_close_def)
  moreover have "taskHandle (myfile_close s5) = snd (createTask env)"
      "\<not> myfile_open (myfile_close s5)" "\<not> DAQmxFailed (error (myfile_close s5))"
    using i by (simp_all add: myfile_close_def at_interval_def)
  ultimately show ?thesis by blast
qed

lemma body_read_fail:
  assumes st: "started env"
    and j: "j < unat (numberOfSamples cfg)" and i: "i < unat (numberOfBuffers cfg)"
    and ok: "\<forall>k<j * unat (numberOfBuffers cfg) + i. read_ok env k"
    and bad: "\<not> read_ok env (j * unat (numberOfBuffers cfg) + i)"
  shows "\<exists>s. body cfg env (initial_state cfg) = Inl s \<and>
     trace s = start_events cfg env
       @ concat (map (interval_events cfg env) [0 ..< j])
       @ concat (map (window_events cfg env)
           [j * unat (numberOfBuffers cfg) ..< j * unat (numberOfBuffers cfg) + i])
       @ [EvReadAnalogF64 (snd (createTask env)) (bufferSize cfg)] \<and>
     taskHandle s = snd (createTask env) \<and> myfile_open s = fileOpen env \<and>
     DAQmxFailed (error s)"
proof -
  from start_ok [OF st, of cfg] obtain s1 where
    s1: "start_acquisition cfg env (initial_state cfg) = Inr s1"
      "trace s1 = [EvCreateTask, EvCreateAIVoltageChan (snd (createTask env)),
        EvCfgSampClkTiming (snd (createTask env)) (bufferSize cfg),
        EvStartTask (snd (createTask env))]"
      "at_interval cfg env 0 s1"
    by blast
  let ?s4 = "emit EvFileHeader ((emit EvFileOpen (emit EvCoutStart s1))\<lparr>myfile_open := fileOpen env\<rparr>)"
  note fo = file_opened [OF s1]
  have z: "unat (0::size_t) + unat (numberOfSamples cfg) = unat (numberOfSamples cfg)" by simp
  from ok have ok': "\<forall>k<j * unat (numberOfBuffers cfg) + i.
      read_ok env (0 * unat (numberOfBuffers cfg) + k)" by simp
  from bad have bad': "\<not> read_ok env (0 * unat (numberOfBuffers cfg) + (j * unat (numberOfBuffers cfg) + i))"
    by simp
  from outer_loop_fail [OF z fo(3) j i ok' bad'] obtain s5 where
    l: "outer_loop cfg env 0 ?s4 = Inl s5"
    and t: "trace s5 = trace ?s4 @ concat (map (interval_events cfg env) [0 ..< 0 + j])
        @ concat (map (window_events cfg env)
            [(0 + j) * unat (numberOfBuffers cfg) ..< (0 + j) * unat (numberOfBuffers cfg) + i])
        @ [EvReadAnalogF64 (snd (createTask env)) (bufferSize cfg)]"
    and r: "taskHandle s5 = snd (createTask env)" "myfile_open s5 = myfile_open ?s4"
      "DAQmxFailed (error s5)"
    by blast
  have "body cfg env (initial_state cfg) = Inl s5"
    using fo(1) l by (simp add: and_then_def)
  then show ?thesis using t r fo(2,4) by simp
qed

lemma cleanup_trace:
  assumes "taskHandle s = snd (createTask env)"
  shows "trace (myfile_destroy (cleanup env s)) = trace s
      @ (if DAQmxFailed (error s) then error_events env else release_events env)
      @ (if myfile_open s then [EvFileClose] else [])"
    and "error (myfile_destroy (cleanup env s)) = error s"
  using assms
  by (simp_all add: cleanup_def myfile_destroy_def Let_def error_events_def release_events_def)

lemma first_failed_read_None:
  "first_failed_read cfg env = None \<longleftrightarrow>
     (\<forall>k<unat (numberOfSamples cfg) * unat (numberOfBuffers cfg). read_ok env k)"
  by (auto simp add: first_failed_read_def find_None_iff)

lemma first_failed_read_Some:
  assumes "first_failed_read cfg env = Some k"
  shows "k < unat (numberOfSamples cfg) * unat (numberOfBuffers cfg)"
    and "\<not> read_ok env k" and "\<forall>k'<k. read_ok env k'"
  using assms
  by (auto simp add: first_failed_read_def find_Some_iff)

lemma failed_read_position:
  assumes "first_failed_read cfg env = Some k"
  shows "k div unat (numberOfBuffers cfg) < unat (numberOfSamples cfg)"
    and "k mod unat (numberOfBuffers cfg) < unat (numberOfBuffers cfg)"
    and "k div unat (numberOfBuffers cfg) * unat (numberOfBuffers cfg)
          + k mod unat (numberOfBuffers cfg) = k"
proof -
  let ?nb = "unat (numberOfBuffers cfg)"
  from first_failed_read_Some(1) [OF assms]
  have lt: "k < unat (numberOfSamples cfg) * ?nb" .
  then have pos: "0 < ?nb" by (cases "?nb = 0") simp_all
  from lt show "k div ?nb < unat (numberOfSamples cfg)"
    by (simp add: less_mult_imp_div_less)
  from pos show "k mod ?nb < ?nb" by simp
  show "k div ?nb * ?nb + k mod ?nb = k" by simp
qed

lemma run_result:
  "trace (snd (main cfg env)) = run_trace cfg env \<and>
   (DAQmxFailed (error (snd (main cfg env))) \<longleftrightarrow>
      \<not> started env \<or> first_failed_read cfg env \<noteq> None)"
proof (cases "started env")
  case False
  from body_not_started [OF False, of cfg] obtain s where
    "body cfg env (initial_state cfg) = Inl s" "trace s = start_calls cfg env"
    "taskHandle s = snd (createTask env)" "\<not> myfile_open s" "DAQmxFailed (error s)"
    by blast
  then show ?thesis
    using False cleanup_trace [of s env] by (simp add: main_def run_trace_def Let_def)
next
  case True
  show ?thesis
  proof (cases "first_failed_read cfg env")
    case None
    then have ok: "\<forall>k<unat (numberOfSamples cfg) * unat (numberOfBuffers cfg). read_ok env k"
      by (simp add: first_failed_read_None)
    from body_ok [OF True ok] obtain s where
      "body cfg env (initial_state cfg) = Inr s"
      "trace s = start_events cfg env
         @ concat (map (interval_events cfg env) [0 ..< unat (numberOfSamples cfg)])
         @ [EvFileClose]"
      "taskHandle s = snd (createTask env)" "\<not> myfile_open s" "\<not> DAQmxFailed (error s)"
      by blast
    then show ?thesis
      using True None cleanup_trace [of s env] by (simp add: main_def run_trace_def Let_def)
  next
    case (Some k)
    let ?nb = "unat (numberOfBuffers cfg)"
    note pos = failed_read_position [OF Some]
    from first_failed_read_Some(3) [OF Some] pos(3)
    have ok: "\<forall>k'<k div ?nb * ?nb + k mod ?nb. read_ok env k'" by simp
    from first_failed_read_Some(2) [OF Some] pos(3)
    have bad: "\<not> read_ok env (k div ?nb * ?nb + k mod ?nb)" by simp
    from body_read_fail [OF True pos(1) pos(2) ok bad] pos(3) obtain s where
      "body cfg env (initial_state cfg) = Inl s"
      "trace s = start_events cfg env
         @ concat (map (interval_events cfg env) [0 ..< k div ?nb])
         @ concat (map (window_events cfg env) [k div ?nb * ?nb ..< k])
         @ [EvReadAnalogF64 (snd (createTask env)) (bufferSize cfg)]"
      "taskHandle s = snd (createTask env)" "myfile_open s = fileOpen env" "DAQmxFailed (error s)"
      by auto
    then show ?thesis
      using True Some cleanup_trace [of s env] by (simp add: main_def run_trace_def Let_def)
  qed
qed

subsection \<open>Reading the trace of a run\<close>

text \<open>
  What \<open>run_trace\<close> holds: the values of its records, the text it puts into the file,
  its file events, its stop and release calls and its reads. The values and the statuses
  depend on the driver through the samples and the statuses of the reads only.
\<close>

lemma record_values_append [simp]:
  "record_values (xs @ ys) = record_values xs @ record_values ys"
  by (simp add: record_values_def)

lemma record_values_Cons [simp]:
  "record_values (e # xs) = record_value e @ record_values xs"
  by (simp add: record_values_def)

lemma record_values_Nil [simp]: "record_values [] = []"
  by (simp add: record_values_def)

lemma record_values_windows [simp]:
  "record_values (concat (map (window_events cfg env) ks)) = []"
  by (induction ks) (simp_all add: window_events_def)

lemma record_values_intervals [simp]:
  "record_values (concat (map (interval_events cfg env) js)) = map (interval_value cfg env) js"
  by (induction js) (simp_all add: interval_events_def)

lemma record_values_start_calls [simp]: "record_values (start_calls cfg env) = []"
  by (simp add: start_calls_def)

lemma record_values_start_events [simp]: "record_values (start_events cfg env) = []"
  by (simp add: start_events_def)

lemma record_values_release [simp]: "record_values (release_events env) = []"
  by (simp add: release_events_def)

lemma record_values_error [simp]: "record_values (error_events env) = []"
  by (simp add: error_events_def)

lemma record_values_run:
  "record_values (run_trace cfg env) =
     (if started env then map (interval_value cfg env) [0 ..< completed_intervals cfg env] else [])"
  by (simp add: run_trace_def completed_intervals_def split: option.split)

lemma file_text_append [simp]: "file_text fmt (xs @ ys) = file_text fmt xs @ file_text fmt ys"
  by (simp add: file_text_def)

lemma file_text_Cons [simp]: "file_text fmt (e # xs) = render fmt e @ file_text fmt xs"
  by (simp add: file_text_def)

lemma file_text_Nil [simp]: "file_text fmt [] = []"
  by (simp add: file_text_def)

lemma file_text_windows [simp]:
  "file_text fmt (concat (map (window_events cfg env) ks)) = []"
  by (induction ks) (simp_all add: window_events_def)

lemma file_text_intervals [simp]:
  "file_text fmt (concat (map (interval_events cfg env) js)) =
     concat (map (\<lambda>j. record_line fmt (current_time env j) (interval_value cfg env j)) js)"
  by (induction js) (simp_all add: interval_events_def)

lemma file_text_start_calls [simp]: "file_text fmt (start_calls cfg env) = []"
  by (simp add: start_calls_def)

lemma file_text_start_events [simp]: "file_text fmt (start_events cfg env) = header_line"
  by (simp add: start_events_def)

lemma file_text_release [simp]: "file_text fmt (release_events env) = []"
  by (simp add: release_events_def)

lemma file_text_error [simp]: "file_text fmt (error_events env) = []"
  by (simp add: error_events_def)

lemma file_text_run:
  "file_text fmt (run_trace cfg env) =
     (if started env
      then header_line @ concat (map (\<lambda>j. record_line fmt (current_time env j) (interval_value cfg env j))
             [0 ..< completed_intervals cfg env])
      else [])"
  by (simp add: run_trace_def completed_intervals_def split: option.split)

lemma filter_windows:
  assumes "\<And>h n. \<not> P (EvReadAnalogF64 h n)" and "\<And>v c. \<not> P (EvCoutMean v c)"
  shows "filter P (concat (map (window_events cfg env) ks)) = []"
  using assms by (induction ks) (simp_all add: window_events_def)

lemma file_events_intervals:
  "filter is_file_event (concat (map (interval_events cfg env) js)) =
     map (\<lambda>j. EvFileRecord (current_time env j) (interval_value cfg env j)) js"
  by (induction js) (simp_all add: interval_events_def filter_windows)

lemma file_events_run:
  "filter is_file_event (run_trace cfg env) =
     (if started env
      then [EvFileOpen, EvFileHeader]
        @ map (\<lambda>j. EvFileRecord (current_time env j) (interval_value cfg env j))
            [0 ..< completed_intervals cfg env]
        @ (if first_failed_read cfg env = None \<or> fileOpen env then [EvFileClose] else [])
      else [])"
  by (simp add: run_trace_def completed_intervals_def start_calls_def start_events_def
      error_events_def release_events_def file_events_intervals filter_windows
      split: option.split)

lemma file_written_run:
  "file_written fmt env (run_trace cfg env) =
     (if started env \<and> fileOpen env
      then accepted (fileAccepts env)
        (header_line @ concat (map (\<lambda>j. record_line fmt (current_time env j) (interval_value cfg env j))
             [0 ..< completed_intervals cfg env]))
      else [])"
  by (cases "fileAccepts env") (simp_all add: file_written_def file_text_run)

lemma filter_intervals_nil:
  assumes "\<And>h n. \<not> P (EvReadAnalogF64 h n)" and "\<And>v c. \<not> P (EvCoutMean v c)"
    and "\<And>v. \<not> P (EvCoutInterval v)" and "\<And>ts v. \<not> P (EvFileRecord ts v)"
  shows "filter P (concat (map (interval_events cfg env) js)) = []"
  using assms by (induction js) (simp_all add: interval_events_def filter_windows)

lemma release_calls_run:
  "filter is_release (run_trace cfg env) =
     (if snd (createTask env) \<noteq> 0 then [EvClearTask (snd (createTask env))] else [])"
  by (simp add: run_trace_def start_calls_def start_events_def
      error_events_def release_events_def filter_intervals_nil filter_windows
      split: option.split)

lemma stop_calls_run:
  "filter is_stop (run_trace cfg env) =
     (if snd (createTask env) \<noteq> 0 then [EvStopTask (snd (createTask env))] else [])"
  by (simp add: run_trace_def start_calls_def start_events_def
      error_events_def release_events_def filter_intervals_nil filter_windows
      split: option.split)



lemma fault_free_iff:
  "fault_free cfg env \<longleftrightarrow> started env \<and> first_failed_read cfg env = None"
  by (auto simp add: fault_free_def first_failed_read_def find_None_iff list_all_iff)

lemma buffer_after_samples:
  assumes "\<And>k. samples (readAnalogF64 env' k) = samples (readAnalogF64 env k)"
  shows "buffer_after cfg env' k = buffer_after cfg env k"
  by (induction k) (simp_all add: assms)

lemma window_value_samples:
  assumes "\<And>k. samples (readAnalogF64 env' k) = samples (readAnalogF64 env k)"
  shows "window_value cfg env' = window_value cfg env"
  by (rule ext) (simp only: window_value_def buffer_after_samples [OF assms])

lemma interval_value_samples:
  assumes "\<And>k. samples (readAnalogF64 env' k) = samples (readAnalogF64 env k)"
  shows "interval_value cfg env' j = interval_value cfg env j"
  by (simp add: interval_value_def interval_windows_def window_value_samples [OF assms])



text \<open>Evaluating the arithmetic on numerals.\<close>

lemmas dbl_eval = double_of_nat_def round_fraction_def round_at_def pack_def round_half_even_def
  floor_log2_def floor_log2_from_def add_aligned_def dsub_def bit_length.simps

lemma double_zero: "double_of_nat 0 = Finite False 0 (- 1074)"
  by (simp add: dbl_eval)

lemma dadd_NaN_left [simp]: "dadd NaN x = NaN"
  by simp

lemma dadd_NaN_right [simp]: "dadd x NaN = NaN"
  by (cases x) simp_all

lemma ddiv_NaN_left [simp]: "ddiv NaN x = NaN"
  by simp

lemma accumulate_NaN: "foldl dadd NaN xs = NaN"
  by (induction xs) simp_all

lemma accumulate_NaN_mem: "NaN \<in> set xs \<Longrightarrow> foldl dadd a xs = NaN"
  by (induction xs arbitrary: a) (auto simp add: accumulate_NaN)

lemma accumulate_sum_first:
  "k \<le> length v \<Longrightarrow> foldl dadd (double_of_nat 0) (take k v) = sum_first v k"
  by (induction k) (simp_all add: take_Suc_conv_app_nth)

lemma mean_of_Nil: "mean_of [] = NaN"
  by (simp add: mean_of_def accumulate_def double_zero)

lemma mean_of_NaN: "mean_of (replicate n NaN) = NaN"
  by (cases n) (simp_all add: mean_of_def accumulate_def accumulate_NaN double_zero)

lemma convert_NaN: "convert NaN = NaN"
  by (simp add: convert_def dsub_def)

lemma main_trace: "trace (snd (main cfg env)) = run_trace cfg env"
  using run_result [of cfg env] by blast

lemma main_error:
  "DAQmxFailed (error (snd (main cfg env))) \<longleftrightarrow> \<not> fault_free cfg env"
  using run_result [of cfg env] by (auto simp add: fault_free_iff)

lemma run_trace_fault_free:
  assumes "fault_free cfg env"
  shows "run_trace cfg env = start_events cfg env
      @ concat (map (interval_events cfg env) [0 ..< unat (numberOfSamples cfg)])
      @ [EvFileClose] @ release_events env"
  using assms by (simp add: fault_free_iff run_trace_def)

lemma completed_fault_free:
  "fault_free cfg env \<Longrightarrow> completed_intervals cfg env = unat (numberOfSamples cfg)"
  by (simp add: fault_free_iff completed_intervals_def)

lemma first_failed_read_at:
  assumes "j < unat (numberOfSamples cfg)" and "i < unat (numberOfBuffers cfg)"
    and "\<forall>k<j * unat (numberOfBuffers cfg) + i. read_ok env k"
    and "\<not> read_ok env (j * unat (numberOfBuffers cfg) + i)"
  shows "first_failed_read cfg env = Some (j * unat (numberOfBuffers cfg) + i)"
proof -
  let ?nb = "unat (numberOfBuffers cfg)" and ?ns = "unat (numberOfSamples cfg)"
  from assms(1) have "Suc j * ?nb \<le> ?ns * ?nb" by (simp only: mult_le_mono1 Suc_leI)
  with assms(2) have lt: "j * ?nb + i < ?ns * ?nb" by simp
  show ?thesis
    unfolding first_failed_read_def find_Some_iff
    using lt assms(3,4) by (intro exI [of _ "j * ?nb + i"]) simp
qed

lemma completed_at:
  assumes "j < unat (numberOfSamples cfg)" and "i < unat (numberOfBuffers cfg)"
    and "\<forall>k<j * unat (numberOfBuffers cfg) + i. read_ok env k"
    and "\<not> read_ok env (j * unat (numberOfBuffers cfg) + i)"
  shows "completed_intervals cfg env = j"
  using first_failed_read_at [OF assms] assms(2) by (simp add: completed_intervals_def)

lemma window_value_empty_buffer:
  assumes "bufferSize cfg = 0"
  shows "window_value cfg env k = NaN"
proof -
  have "length (buffer_after cfg env (Suc k)) = 0"
    using assms by (simp only: length_buffer_after) simp
  then have "buffer_after cfg env (Suc k) = []" by (simp only: length_0_conv)
  then show ?thesis by (simp only: window_value_def mean_of_Nil convert_NaN)
qed

lemma interval_value_degenerate:
  assumes "bufferSize cfg = 0 \<or> numberOfBuffers cfg = 0"
  shows "interval_value cfg env j = NaN"
proof (cases "numberOfBuffers cfg = 0")
  case True
  then show ?thesis by (simp add: interval_value_def interval_windows_def mean_of_Nil)
next
  case False
  with assms have z: "bufferSize cfg = 0" by simp
  have "window_value cfg env = (\<lambda>k. NaN)"
    by (rule ext) (rule window_value_empty_buffer [OF z])
  then have "interval_windows cfg env j = replicate (unat (numberOfBuffers cfg)) NaN"
    by (simp add: interval_windows_def map_replicate_const)
  then show ?thesis by (simp add: interval_value_def mean_of_NaN)
qed

text \<open>The example runs, evaluated.\<close>

lemma upt_numeral_2: "[0..<2] = [0, Suc 0]"
  by (simp add: upt_rec)

lemma scenario_started: "started scenario_env"
  by (simp add: started_def scenario_env_def DAQmxFailed_def)

lemma scenario_reads_ok: "read_ok scenario_env k"
  by (simp add: read_ok_def scenario_env_def full_read_def DAQmxFailed_def)

lemma scenario_fault_free: "fault_free cfg scenario_env"
  by (simp add: fault_free_def scenario_started list_all_iff scenario_reads_ok)

lemma mean_1313: "mean_of (map double_of_nat [1, 3, 1, 3]) = double_of_nat 2"
  by (simp add: mean_of_def accumulate_def dbl_eval)

lemma convert_2: "convert (double_of_nat 2) = ddiv (double_of_nat 15) (double_of_nat 4)"
  by (simp add: convert_def dbl_eval)

lemma mean_3_75:
  "mean_of [ddiv (double_of_nat 15) (double_of_nat 4), ddiv (double_of_nat 15) (double_of_nat 4)]
     = ddiv (double_of_nat 15) (double_of_nat 4)"
  by (simp add: mean_of_def accumulate_def dbl_eval)


lemma scenario_buffer:
  "buffer_after scenario_cfg scenario_env (Suc k) = map double_of_nat [1, 3, 1, 3]"
  by (simp add: scenario_cfg_def scenario_env_def full_read_def overlay_def)

lemma scenario_window:
  "window_value scenario_cfg scenario_env k = ddiv (double_of_nat 15) (double_of_nat 4)"
  by (simp only: window_value_def scenario_buffer mean_1313 convert_2)

lemma scenario_windows:
  "interval_windows scenario_cfg scenario_env j =
     [ddiv (double_of_nat 15) (double_of_nat 4), ddiv (double_of_nat 15) (double_of_nat 4)]"
proof -
  have "unat (numberOfBuffers scenario_cfg) = 2" by (simp add: scenario_cfg_def)
  then show ?thesis
    by (simp add: interval_windows_def scenario_window [abs_def] map_replicate_const
        numeral_2_eq_2)
qed

lemma scenario_interval:
  "mean_of (interval_windows scenario_cfg scenario_env j) = ddiv (double_of_nat 15) (double_of_nat 4)"
  by (simp only: scenario_windows mean_3_75)

lemma upt_numeral_1: "[0..<1] = [0]"
  by (simp add: upt_rec)

lemma empty_fault_free: "fault_free cfg empty_env"
  by (simp add: fault_free_def started_def read_ok_def empty_env_def scenario_env_def
      DAQmxFailed_def list_all_iff)








lemma failing_started: "started failing_env"
  by (simp add: started_def failing_env_def scenario_env_def DAQmxFailed_def)

lemma failing_reads:
  "k < 3 \<Longrightarrow> read_ok failing_env k" "\<not> read_ok failing_env 3"
  by (simp_all add: read_ok_def failing_env_def full_read_def timeout_read_def DAQmxFailed_def)

lemma failing_not_fault_free: "\<not> fault_free scenario_cfg failing_env"
proof
  assume "fault_free scenario_cfg failing_env"
  then have "list_all (read_ok failing_env) [0 ..< 4]"
    by (simp add: fault_free_def scenario_cfg_def)
  then have "read_ok failing_env 3" by (simp add: list_all_iff)
  with failing_reads(2) show False by blast
qed

lemma failing_buffer:
  "k < 3 \<Longrightarrow> buffer_after scenario_cfg failing_env (Suc k) = map double_of_nat [1, 3, 1, 3]"
  by (simp add: scenario_cfg_def failing_env_def full_read_def overlay_def)

lemma failing_window:
  "k < 3 \<Longrightarrow> window_value scenario_cfg failing_env k = ddiv (double_of_nat 15) (double_of_nat 4)"
  by (simp only: window_value_def failing_buffer mean_1313 convert_2)

lemma failing_interval:
  "interval_value scenario_cfg failing_env 0 = ddiv (double_of_nat 15) (double_of_nat 4)"
proof -
  have "unat (numberOfBuffers scenario_cfg) = 2" by (simp add: scenario_cfg_def)
  then have "interval_windows scenario_cfg failing_env 0 =
      [ddiv (double_of_nat 15) (double_of_nat 4), ddiv (double_of_nat 15) (double_of_nat 4)]"
    by (simp add: interval_windows_def upt_numeral_2 failing_window)
  then show ?thesis by (simp only: interval_value_def mean_3_75)
qed


subsection \<open>Fault-free runs\<close>



subsection \<open>The unit conversion\<close>

text \<open>
  Claim C2. The conversion from volts to PSI is the affine map
  \<open>value = scale * (meanVoltage - offset)\<close> with \<open>scale = 15.0/4.0\<close> and
  \<open>offset = 1.0\<close>, computed in \<open>double\<close> arithmetic: a subtraction and a
  multiplication, each rounded. The scale is exactly 3.75. The conversion sends 1.0 to 0.0,
  5.0 to 15.0 and 3.0 to 7.5, exactly. It is a function of its argument alone, it is defined
  on every \<open>double\<close>, and it does not fail: a NaN is sent to a NaN.
\<close>

theorem convert_affine:
  "convert x = dmul (ddiv (double_of_nat 15) (double_of_nat 4)) (dsub x (double_of_nat 1)) \<and>
   value_of (ddiv (double_of_nat 15) (double_of_nat 4)) = Some (15 / 4) \<and>
   value_of (double_of_nat 1) = Some 1 \<and>
   convert (double_of_nat 1) = double_of_nat 0 \<and>
   convert (double_of_nat 5) = double_of_nat 15 \<and>
   convert (double_of_nat 3) = ddiv (double_of_nat 15) (double_of_nat 2) \<and>
   value_of (convert (double_of_nat 1)) = Some 0 \<and>
   value_of (convert (double_of_nat 5)) = Some 15 \<and>
   value_of (convert (double_of_nat 3)) = Some (15 / 2) \<and>
   convert NaN = NaN"
proof -
  have a: "convert x = dmul (ddiv (double_of_nat 15) (double_of_nat 4)) (dsub x (double_of_nat 1))"
    by (simp only: convert_def)
  have b: "value_of (ddiv (double_of_nat 15) (double_of_nat 4)) = Some (15 / 4)"
      "value_of (double_of_nat 1) = Some 1"
    by (simp_all add: dbl_eval)
  have c: "convert (double_of_nat 1) = double_of_nat 0"
      "convert (double_of_nat 5) = double_of_nat 15"
      "convert (double_of_nat 3) = ddiv (double_of_nat 15) (double_of_nat 2)"
    by (simp_all add: convert_def dbl_eval)
  have d: "value_of (convert (double_of_nat 1)) = Some 0"
      "value_of (convert (double_of_nat 5)) = Some 15"
      "value_of (convert (double_of_nat 3)) = Some (15 / 2)"
    by (simp_all add: convert_def dbl_eval)
  from a b c d convert_NaN show ?thesis by blast
qed

subsection \<open>The mean of a buffer\<close>

text \<open>
  Claim C3, as the code has it. The mean of a buffer is the sum of its values divided by
  their count, in \<open>double\<close> arithmetic: the values are added one after the other from
  0.0, in the order of the buffer, and the sum is divided by the count converted to
  \<open>double\<close>. This holds for every buffer, whatever its values; a buffer that holds a NaN
  has the mean NaN. On an empty buffer the expression does not fail: it divides 0.0 by 0.0
  and yields a NaN.
\<close>

theorem mean_of_sum_over_count:
  "mean_of v = ddiv (sum_first v (length v)) (double_of_nat (length v)) \<and>
   (NaN \<in> set v \<longrightarrow> mean_of v = NaN) \<and>
   mean_of [] = NaN"
proof -
  have "accumulate v (double_of_nat 0) = sum_first v (length v)"
    using accumulate_sum_first [of "length v" v] by (simp add: accumulate_def)
  then have a: "mean_of v = ddiv (sum_first v (length v)) (double_of_nat (length v))"
    by (simp only: mean_of_def)
  have b: "mean_of v = NaN" if "NaN \<in> set v"
    using that by (simp add: mean_of_def accumulate_def accumulate_NaN_mem)
  from a b mean_of_Nil show ?thesis by blast
qed

text \<open>
  Claim C3, on the buffer 1, 3, 1, 3, whose mean is 2, and on a buffer that holds a NaN.
\<close>

theorem mean_of_sum_over_count_witness:
  "mean_of (map double_of_nat [1, 3, 1, 3]) = double_of_nat 2 \<and>
   value_of (mean_of (map double_of_nat [1, 3, 1, 3])) = Some 2 \<and>
   NaN \<in> set [double_of_nat 1, NaN] \<and> mean_of [double_of_nat 1, NaN] = NaN"
proof -
  have a: "mean_of (map double_of_nat [1, 3, 1, 3]) = double_of_nat 2"
    by (rule mean_1313)
  have b: "value_of (mean_of (map double_of_nat [1, 3, 1, 3])) = Some 2"
    by (simp only: a) (simp add: dbl_eval)
  have m: "NaN \<in> set [double_of_nat 1, NaN]" by simp
  have c: "mean_of [double_of_nat 1, NaN] = NaN"
    using mean_of_sum_over_count [of "[double_of_nat 1, NaN]"] m by blast
  from a b m c show ?thesis by blast
qed

text \<open>
  Claim C3 as stated asks the mean of an empty buffer to fail. With \<open>bufferSize = 0\<close> the
  buffer is empty; the run nevertheless ends without an error and passes a record whose
  value is a NaN to the file.
\<close>

theorem empty_buffer_mean_does_not_fail:
  "dataBuffer (initial_state empty_buffer_cfg) = [] \<and> mean_of [] = NaN \<and>
   \<not> DAQmxFailed (error (snd (main empty_buffer_cfg empty_env))) \<and>
   record_values (trace (snd (main empty_buffer_cfg empty_env))) = [NaN]"
proof -
  have a: "dataBuffer (initial_state empty_buffer_cfg) = []"
    by (simp add: initial_state_def empty_buffer_cfg_def)
  have b: "\<not> DAQmxFailed (error (snd (main empty_buffer_cfg empty_env)))"
    by (simp add: main_error empty_fault_free)
  have "bufferSize empty_buffer_cfg = 0 \<or> numberOfBuffers empty_buffer_cfg = 0"
    by (simp add: empty_buffer_cfg_def)
  then have "interval_value empty_buffer_cfg empty_env 0 = NaN"
    by (rule interval_value_degenerate)
  moreover have "completed_intervals empty_buffer_cfg empty_env = 1"
    by (simp add: completed_fault_free [OF empty_fault_free] empty_buffer_cfg_def)
  moreover have "started empty_env"
    using empty_fault_free [of empty_buffer_cfg] by (simp add: fault_free_def)
  ultimately have c: "record_values (trace (snd (main empty_buffer_cfg empty_env))) = [NaN]"
    by (simp add: main_trace record_values_run upt_numeral_1)
  from a b c mean_of_Nil show ?thesis by blast
qed

subsection \<open>Short reads\<close>




subsection \<open>Stopping and releasing the task\<close>

text \<open>
  Claim C5, as the code has it. When \<open>DAQmxCreateTask\<close> stored a handle other than 0,
  every run makes exactly one call of \<open>DAQmxStopTask\<close> and exactly one of
  \<open>DAQmxClearTask\<close>, whatever failed; when the handle is 0 it makes neither. The two
  calls are the last driver calls of the run.
\<close>

theorem release_once_when_created:
  "filter is_release (trace (snd (main cfg env))) =
     (if snd (createTask env) \<noteq> 0 then [EvClearTask (snd (createTask env))] else []) \<and>
   filter is_stop (trace (snd (main cfg env))) =
     (if snd (createTask env) \<noteq> 0 then [EvStopTask (snd (createTask env))] else []) \<and>
   (\<exists>pre post. trace (snd (main cfg env)) = pre @ release_events env @ post \<and>
      filter is_device_call post = [])"
proof -
  have "\<exists>pre post. run_trace cfg env = pre @ release_events env @ post \<and>
      filter is_device_call post = []"
  proof (cases "started env")
    case False
    then have "run_trace cfg env = (start_calls cfg env @ [EvGetExtendedErrorInfo])
        @ release_events env @ [EvPrintfError (extendedErrorInfo env)]"
      by (simp add: run_trace_def error_events_def)
    moreover have "filter is_device_call [EvPrintfError (extendedErrorInfo env)] = []" by simp
    ultimately show ?thesis by blast
  next
    case True
    show ?thesis
    proof (cases "first_failed_read cfg env")
      case None
      with True have "run_trace cfg env = (start_events cfg env
          @ concat (map (interval_events cfg env) [0 ..< unat (numberOfSamples cfg)])
          @ [EvFileClose]) @ release_events env @ []"
        by (simp add: run_trace_def)
      moreover have "filter is_device_call [] = []" by simp
      ultimately show ?thesis by blast
    next
      case (Some k)
      with True have "run_trace cfg env = (start_events cfg env
          @ concat (map (interval_events cfg env) [0 ..< k div unat (numberOfBuffers cfg)])
          @ concat (map (window_events cfg env)
                [k div unat (numberOfBuffers cfg) * unat (numberOfBuffers cfg) ..< k])
          @ [EvReadAnalogF64 (snd (createTask env)) (bufferSize cfg), EvGetExtendedErrorInfo])
          @ release_events env
          @ (EvPrintfError (extendedErrorInfo env) # (if fileOpen env then [EvFileClose] else []))"
        by (simp add: run_trace_def error_events_def)
      moreover have "filter is_device_call
          (EvPrintfError (extendedErrorInfo env) # (if fileOpen env then [EvFileClose] else [])) = []"
        by simp
      ultimately show ?thesis by blast
    qed
  qed
  then show ?thesis
    by (simp only: main_trace release_calls_run stop_calls_run)
qed

text \<open>
  Claim C5, on a run whose fourth read fails and on a run without failure, both with the
  handle 7.
\<close>

theorem release_once_when_created_witness:
  "filter is_release (trace (snd (main scenario_cfg failing_env))) = [EvClearTask 7] \<and>
   filter is_stop (trace (snd (main scenario_cfg failing_env))) = [EvStopTask 7] \<and>
   filter is_release (trace (snd (main scenario_cfg scenario_env))) = [EvClearTask 7] \<and>
   filter is_stop (trace (snd (main scenario_cfg scenario_env))) = [EvStopTask 7]"
proof -
  have h: "snd (createTask failing_env) = 7" "snd (createTask scenario_env) = 7"
    by (simp_all add: failing_env_def scenario_env_def)
  show ?thesis
    using release_once_when_created [of scenario_cfg failing_env]
      release_once_when_created [of scenario_cfg scenario_env]
    by (simp add: h)
qed

text \<open>
  Claim C5 as stated asks for exactly one release in every run. When
  \<open>DAQmxCreateTask\<close> fails and stores no handle, the test \<open>taskHandle != 0\<close> at
  \<open>Error\<close> skips both calls.
\<close>

theorem no_release_without_task:
  "DAQmxFailed (fst (createTask no_task_env)) \<and>
   trace (snd (main scenario_cfg no_task_env)) =
     [EvCreateTask, EvGetExtendedErrorInfo, EvPrintfError ''Device not found''] \<and>
   length (filter is_release (trace (snd (main scenario_cfg no_task_env)))) = 0"
proof -
  have a: "DAQmxFailed (fst (createTask no_task_env))"
    by (simp add: no_task_env_def DAQmxFailed_def)
  then have "\<not> started no_task_env" by (simp add: started_def)
  then have b: "trace (snd (main scenario_cfg no_task_env)) =
     [EvCreateTask, EvGetExtendedErrorInfo, EvPrintfError ''Device not found'']"
    using a
    by (simp add: main_trace run_trace_def start_calls_def error_events_def release_events_def)
      (simp add: no_task_env_def scenario_env_def)
  from a b show ?thesis by simp
qed

subsection \<open>The exit code\<close>

text \<open>
  Claim C6. \<open>main\<close> returns 0 in every run. When a driver call has failed, the run
  goes on at \<open>Error\<close>: it fetches the error text, stops and releases the task, prints
  the text, and still returns 0. Nothing follows but the closing, by the destructor of the
  stream, of the file when one is open.
\<close>

theorem exit_code_always_zero:
  "fst (main cfg env) = 0 \<and>
   (\<not> fault_free cfg env \<longrightarrow>
      DAQmxFailed (error (snd (main cfg env))) \<and>
      (\<exists>pre. trace (snd (main cfg env)) =
         pre @ error_events env @ (if started env \<and> fileOpen env then [EvFileClose] else [])))"
proof -
  have "fst (main cfg env) = 0" by (simp add: main_def Let_def)
  moreover have "\<not> fault_free cfg env \<Longrightarrow> \<exists>pre. run_trace cfg env =
         pre @ error_events env @ (if started env \<and> fileOpen env then [EvFileClose] else [])"
    by (cases "first_failed_read cfg env") (auto simp add: fault_free_iff run_trace_def)
  ultimately show ?thesis
    by (simp only: main_trace main_error) simp
qed

text \<open>
  Claim C6, on a run whose fourth read fails.
\<close>

theorem exit_code_always_zero_witness:
  "\<not> fault_free scenario_cfg failing_env \<and> fst (main scenario_cfg failing_env) = 0 \<and>
   DAQmxFailed (error (snd (main scenario_cfg failing_env)))"
  using exit_code_always_zero [of scenario_cfg failing_env] failing_not_fault_free by blast

subsection \<open>Sizes equal to zero\<close>

text \<open>
  Claim C7, as the code has it. The program does not check its sizes: every run starts
  with the call of \<open>DAQmxCreateTask\<close>, whatever the configuration. When no driver call
  fails and \<open>bufferSize\<close> or \<open>numberOfBuffers\<close> is 0, the run ends without an error,
  and every record it passes to the file holds a NaN. The sizes of the source, 100 and 60,
  are not 0.
\<close>

theorem no_configuration_check:
  "take 1 (trace (snd (main cfg env))) = [EvCreateTask] \<and>
   (fault_free cfg env \<and> (bufferSize cfg = 0 \<or> numberOfBuffers cfg = 0) \<longrightarrow>
      \<not> DAQmxFailed (error (snd (main cfg env))) \<and>
      record_values (trace (snd (main cfg env))) =
        replicate (unat (numberOfSamples cfg)) NaN) \<and>
   bufferSize reference_config \<noteq> 0 \<and> numberOfBuffers reference_config \<noteq> 0"
proof -
  have a: "take 1 (run_trace cfg env) = [EvCreateTask]"
    by (simp add: run_trace_def start_calls_def start_events_def split: option.split)
  have b: "record_values (run_trace cfg env) = replicate (unat (numberOfSamples cfg)) NaN"
    if "fault_free cfg env" and "bufferSize cfg = 0 \<or> numberOfBuffers cfg = 0"
  proof -
    have "interval_value cfg env = (\<lambda>j. NaN)"
      by (rule ext) (rule interval_value_degenerate [OF that(2)])
    then show ?thesis
      using that(1) completed_fault_free [OF that(1)]
      by (simp add: record_values_run fault_free_iff map_replicate_const)
  qed
  have c: "bufferSize reference_config \<noteq> 0 \<and> numberOfBuffers reference_config \<noteq> 0"
    by (simp add: reference_config_def)
  from a b c show ?thesis
    by (simp only: main_trace main_error) blast
qed

text \<open>
  Claim C7, on a run with \<open>bufferSize = 0\<close>.
\<close>

theorem no_configuration_check_witness:
  "fault_free tiny_buffer_cfg scenario_env \<and> bufferSize tiny_buffer_cfg = 0 \<and>
   take 1 (trace (snd (main tiny_buffer_cfg scenario_env))) = [EvCreateTask] \<and>
   \<not> DAQmxFailed (error (snd (main tiny_buffer_cfg scenario_env))) \<and>
   record_values (trace (snd (main tiny_buffer_cfg scenario_env))) = [NaN, NaN]"
proof -
  have h: "fault_free tiny_buffer_cfg scenario_env" by (rule scenario_fault_free)
  have z: "bufferSize tiny_buffer_cfg = 0" by (simp add: tiny_buffer_cfg_def)
  have n: "unat (numberOfSamples tiny_buffer_cfg) = 2" by (simp add: tiny_buffer_cfg_def)
  note t = no_configuration_check [of tiny_buffer_cfg scenario_env]
  from t have a: "take 1 (trace (snd (main tiny_buffer_cfg scenario_env))) = [EvCreateTask]"
    by (rule conjunct1)
  from t h z have b: "\<not> DAQmxFailed (error (snd (main tiny_buffer_cfg scenario_env)))"
    and c: "record_values (trace (snd (main tiny_buffer_cfg scenario_env))) =
      replicate (unat (numberOfSamples tiny_buffer_cfg)) NaN"
    by blast+
  from c have c': "record_values (trace (snd (main tiny_buffer_cfg scenario_env))) =
      [NaN, NaN]"
    by (simp add: n numeral_2_eq_2)
  from h z a b c' show ?thesis by blast
qed

text \<open>
  Claim C7 as stated asks a configuration with \<open>numberOfBuffers = 0\<close> to be refused
  before the driver is called. The run below calls the driver, reads nothing, writes one
  record with the value NaN and ends without an error.
\<close>

theorem zero_buffers_run_completes:
  "numberOfBuffers no_buffers_cfg = 0 \<and>
   \<not> DAQmxFailed (error (snd (main no_buffers_cfg scenario_env))) \<and>
   trace (snd (main no_buffers_cfg scenario_env)) =
     [EvCreateTask, EvCreateAIVoltageChan 7, EvCfgSampClkTiming 7 4, EvStartTask 7,
      EvCoutStart, EvFileOpen, EvFileHeader,
      EvCoutInterval NaN, EvFileRecord ''2021-03-05 10:01:00'' NaN,
      EvFileClose, EvStopTask 7, EvClearTask 7]"
proof -
  have a: "numberOfBuffers no_buffers_cfg = 0" by (simp add: no_buffers_cfg_def)
  have b: "\<not> DAQmxFailed (error (snd (main no_buffers_cfg scenario_env)))"
    by (simp add: main_error scenario_fault_free)
  have n: "unat (numberOfSamples no_buffers_cfg) = 1" "unat (numberOfBuffers no_buffers_cfg) = 0"
      "bufferSize no_buffers_cfg = 4"
    by (simp_all add: no_buffers_cfg_def)
  have h: "snd (createTask scenario_env) = 7" "current_time scenario_env 0 = ''2021-03-05 10:01:00''"
    by (simp_all add: scenario_env_def)
  have i: "interval_events no_buffers_cfg scenario_env 0 =
      [EvCoutInterval NaN, EvFileRecord ''2021-03-05 10:01:00'' NaN]"
    by (simp add: interval_events_def n h interval_value_degenerate [OF disjI2, OF a])
  have c: "trace (snd (main no_buffers_cfg scenario_env)) =
     [EvCreateTask, EvCreateAIVoltageChan 7, EvCfgSampClkTiming 7 4, EvStartTask 7,
      EvCoutStart, EvFileOpen, EvFileHeader,
      EvCoutInterval NaN, EvFileRecord ''2021-03-05 10:01:00'' NaN,
      EvFileClose, EvStopTask 7, EvClearTask 7]"
    by (simp add: main_trace run_trace_fault_free [OF scenario_fault_free] n upt_numeral_1 i
        start_events_def release_events_def h)
  from a b c show ?thesis by blast
qed

subsection \<open>The log file\<close>

text \<open>
  Claim C8, as the code has it. When the four calls that create and start the task succeed,
  the stream is opened once, the header is inserted, then one line \<open>timestamp,value\<close>
  for each pass of the outer loop that ran to its end, in order, and the stream is closed
  once, by line 123 or, after a failed read, by the destructor when the file is open;
  nothing else is done to the stream. The program never tests the stream. The file then
  holds the header and the lines when the file was opened and the storage took every
  character; when the storage failed it holds the characters taken until then, an initial
  part of that text; when the file was not opened it holds nothing of the run. When one of
  the four calls fails, the stream is never opened and nothing is written.
\<close>

theorem log_file_contents:
  "filter is_file_event (trace (snd (main cfg env))) =
     (if started env
      then [EvFileOpen, EvFileHeader]
        @ map (\<lambda>j. EvFileRecord (current_time env j) (interval_value cfg env j))
            [0 ..< completed_intervals cfg env]
        @ (if first_failed_read cfg env = None \<or> fileOpen env then [EvFileClose] else [])
      else []) \<and>
   file_text fmt (trace (snd (main cfg env))) =
     (if started env
      then header_line
        @ concat (map (\<lambda>j. record_line fmt (current_time env j) (interval_value cfg env j))
            [0 ..< completed_intervals cfg env])
      else []) \<and>
   file_written fmt env (trace (snd (main cfg env))) =
     (if started env \<and> fileOpen env
      then accepted (fileAccepts env)
        (header_line
         @ concat (map (\<lambda>j. record_line fmt (current_time env j) (interval_value cfg env j))
             [0 ..< completed_intervals cfg env]))
      else [])"
  by (simp only: main_trace file_events_run file_text_run file_written_run)

text \<open>
  Claim C8, on the example run, with a formatting that prints 3.75, and on the same run
  with a storage that fails after 13 characters.
\<close>

theorem log_file_contents_witness:
  "filter is_file_event (trace (snd (main scenario_cfg scenario_env))) =
     [EvFileOpen, EvFileHeader,
      EvFileRecord ''2021-03-05 10:01:00'' (ddiv (double_of_nat 15) (double_of_nat 4)),
      EvFileRecord ''2021-03-05 10:02:00'' (ddiv (double_of_nat 15) (double_of_nat 4)),
      EvFileClose] \<and>
   file_written (\<lambda>v. ''3.75'') scenario_env (trace (snd (main scenario_cfg scenario_env))) =
     ''Date and Time , Pressure [PSI]\<newline>2021-03-05 10:01:00,3.75\<newline>2021-03-05 10:02:00,3.75\<newline>'' \<and>
   file_written (\<lambda>v. ''3.75'') full_disk_env (trace (snd (main scenario_cfg full_disk_env))) =
     ''Date and Time''"
proof -
  have c: "completed_intervals scenario_cfg scenario_env = 2"
    by (simp add: completed_fault_free [OF scenario_fault_free] scenario_cfg_def)
  have i: "interval_value scenario_cfg scenario_env =
      (\<lambda>j. ddiv (double_of_nat 15) (double_of_nat 4))"
    by (rule ext) (simp only: interval_value_def scenario_interval)
  have ct: "current_time scenario_env 0 = ''2021-03-05 10:01:00''"
      "current_time scenario_env (Suc 0) = ''2021-03-05 10:02:00''"
    by (simp_all add: scenario_env_def)
  have f: "fileOpen scenario_env" "fileAccepts scenario_env = None"
    by (simp_all add: scenario_env_def)
  note t = log_file_contents [of scenario_cfg scenario_env "\<lambda>v. ''3.75''"]
  have a: "filter is_file_event (trace (snd (main scenario_cfg scenario_env))) =
     [EvFileOpen, EvFileHeader,
      EvFileRecord ''2021-03-05 10:01:00'' (ddiv (double_of_nat 15) (double_of_nat 4)),
      EvFileRecord ''2021-03-05 10:02:00'' (ddiv (double_of_nat 15) (double_of_nat 4)),
      EvFileClose]"
    using t [THEN conjunct1] by (simp add: scenario_started c i upt_numeral_2 ct f)
  have b: "file_written (\<lambda>v. ''3.75'') scenario_env (trace (snd (main scenario_cfg scenario_env))) =
     ''Date and Time , Pressure [PSI]\<newline>2021-03-05 10:01:00,3.75\<newline>2021-03-05 10:02:00,3.75\<newline>''"
    using t [THEN conjunct2, THEN conjunct2]
    by (simp add: scenario_started c i upt_numeral_2 ct f header_line_def record_line_def)
  have s': "started full_disk_env" "fileOpen full_disk_env" "fileAccepts full_disk_env = Some 13"
    using scenario_started by (simp_all add: full_disk_env_def started_def scenario_env_def)
  have d: "file_written (\<lambda>v. ''3.75'') full_disk_env (trace (snd (main scenario_cfg full_disk_env))) =
     ''Date and Time''"
    using log_file_contents [of scenario_cfg full_disk_env "\<lambda>v. ''3.75''",
        THEN conjunct2, THEN conjunct2]
    by (simp add: s' header_line_def)
  from a b d show ?thesis by blast
qed

text \<open>
  Claim C8 as stated has the file opened once and holding the header in every run. When
  \<open>DAQmxStartTask\<close> fails, line 81 is never reached: the stream is not opened. When the
  task starts and \<open>myfile.open\<close> fails, the program goes on, passes the header and its
  two records to the stream, and the file holds nothing.
\<close>

theorem log_file_not_written:
  "\<not> DAQmxFailed (fst (createTask no_start_env)) \<and> DAQmxFailed (startTask no_start_env) \<and>
   filter is_file_event (trace (snd (main scenario_cfg no_start_env))) = [] \<and>
   file_written (\<lambda>v. ''3.75'') no_start_env (trace (snd (main scenario_cfg no_start_env))) = [] \<and>
   fault_free scenario_cfg no_file_env \<and> \<not> fileOpen no_file_env \<and>
   length (record_values (trace (snd (main scenario_cfg no_file_env)))) = 2 \<and>
   file_written (\<lambda>v. ''3.75'') no_file_env (trace (snd (main scenario_cfg no_file_env))) = []"
proof -
  have a: "\<not> DAQmxFailed (fst (createTask no_start_env))" "DAQmxFailed (startTask no_start_env)"
    by (simp_all add: no_start_env_def scenario_env_def DAQmxFailed_def)
  then have s: "\<not> started no_start_env" by (simp add: started_def)
  have b: "filter is_file_event (trace (snd (main scenario_cfg no_start_env))) = []"
    using s by (simp add: main_trace file_events_run)
  have c: "file_written (\<lambda>v. ''3.75'') no_start_env (trace (snd (main scenario_cfg no_start_env))) = []"
    using s by (simp add: main_trace file_written_run)
  have d: "fault_free scenario_cfg no_file_env"
    by (simp add: fault_free_def started_def read_ok_def no_file_env_def scenario_env_def
        full_read_def DAQmxFailed_def list_all_iff)
  have e: "\<not> fileOpen no_file_env" by (simp add: no_file_env_def)
  have "unat (numberOfSamples scenario_cfg) = 2" by (simp add: scenario_cfg_def)
  then have "completed_intervals scenario_cfg no_file_env = 2"
    by (simp only: completed_fault_free [OF d])
  then have f: "length (record_values (trace (snd (main scenario_cfg no_file_env)))) = 2"
    using d by (simp add: main_trace record_values_run fault_free_def)
  have g: "file_written (\<lambda>v. ''3.75'') no_file_env (trace (snd (main scenario_cfg no_file_env))) = []"
    using e by (simp add: file_written_def)
  from a b c d e f g show ?thesis by blast
qed

subsection \<open>A read that fails\<close>

text \<open>
  Claim C9, as the code has it. When the first read that fails is read \<open>i\<close> of pass
  \<open>j\<close> of the outer loop, the jump to \<open>Error\<close> happens with the header and the records
  of the passes \<open>0\<close> to \<open>j - 1\<close> passed to the stream, and nothing is passed to it
  afterwards: no record comes from the pass that was cut short. The file holds exactly that
  text when it was opened and the storage took every character; when the storage failed it
  holds the characters taken until then, an initial part of that text; when the file was not
  opened, which the program never tests, it holds nothing.
\<close>

theorem read_failure_keeps_completed_records:
  assumes "started env"
    and "j < unat (numberOfSamples cfg)" and "i < unat (numberOfBuffers cfg)"
    and "\<forall>k<j * unat (numberOfBuffers cfg) + i. read_ok env k"
    and "\<not> read_ok env (j * unat (numberOfBuffers cfg) + i)"
  shows "(\<exists>s. body cfg env (initial_state cfg) = Inl s \<and>
       file_text fmt (trace s) = header_line
         @ concat (map (\<lambda>j'. record_line fmt (current_time env j') (interval_value cfg env j'))
             [0 ..< j]) \<and>
       filter is_file_event (trace s) = [EvFileOpen, EvFileHeader]
         @ map (\<lambda>j'. EvFileRecord (current_time env j') (interval_value cfg env j')) [0 ..< j] \<and>
       file_written fmt env (trace s) =
         (if fileOpen env
          then accepted (fileAccepts env) (header_line
            @ concat (map (\<lambda>j'. record_line fmt (current_time env j') (interval_value cfg env j'))
                [0 ..< j]))
          else [])) \<and>
     file_text fmt (trace (snd (main cfg env))) = header_line
         @ concat (map (\<lambda>j'. record_line fmt (current_time env j') (interval_value cfg env j'))
             [0 ..< j]) \<and>
     file_written fmt env (trace (snd (main cfg env))) =
       (if fileOpen env
        then accepted (fileAccepts env) (header_line
          @ concat (map (\<lambda>j'. record_line fmt (current_time env j') (interval_value cfg env j'))
              [0 ..< j]))
        else []) \<and>
     record_values (trace (snd (main cfg env))) = map (interval_value cfg env) [0 ..< j]"
proof -
  from body_read_fail [OF assms] obtain s where
    b: "body cfg env (initial_state cfg) = Inl s"
    and t: "trace s = start_events cfg env
       @ concat (map (interval_events cfg env) [0 ..< j])
       @ concat (map (window_events cfg env)
           [j * unat (numberOfBuffers cfg) ..< j * unat (numberOfBuffers cfg) + i])
       @ [EvReadAnalogF64 (snd (createTask env)) (bufferSize cfg)]"
    by blast
  have x: "file_text fmt (trace s) = header_line
         @ concat (map (\<lambda>j'. record_line fmt (current_time env j') (interval_value cfg env j'))
             [0 ..< j])"
    unfolding t by simp
  have y: "filter is_file_event (trace s) = [EvFileOpen, EvFileHeader]
         @ map (\<lambda>j'. EvFileRecord (current_time env j') (interval_value cfg env j')) [0 ..< j]"
    unfolding t by (simp add: file_events_intervals filter_windows start_events_def)
  have x': "file_written fmt env (trace s) =
         (if fileOpen env
          then accepted (fileAccepts env) (header_line
            @ concat (map (\<lambda>j'. record_line fmt (current_time env j') (interval_value cfg env j'))
                [0 ..< j]))
          else [])"
    by (simp only: file_written_def x)
  note c = completed_at [OF assms(2-5)]
  have z: "file_text fmt (trace (snd (main cfg env))) = header_line
         @ concat (map (\<lambda>j'. record_line fmt (current_time env j') (interval_value cfg env j'))
             [0 ..< j])"
    using assms(1) c by (simp only: main_trace file_text_run) simp
  have z': "file_written fmt env (trace (snd (main cfg env))) =
       (if fileOpen env
        then accepted (fileAccepts env) (header_line
          @ concat (map (\<lambda>j'. record_line fmt (current_time env j') (interval_value cfg env j'))
              [0 ..< j]))
        else [])"
    by (simp only: file_written_def z)
  have w: "record_values (trace (snd (main cfg env))) = map (interval_value cfg env) [0 ..< j]"
    using assms(1) c by (simp only: main_trace record_values_run) simp
  from b x y x' z z' w show ?thesis by blast
qed

text \<open>
  Claim C9, on a run whose fourth read fails: read 1 of pass 1. The file is opened and the
  storage takes every character.
\<close>

theorem read_failure_keeps_completed_records_witness:
  "started failing_env \<and> read_ok failing_env 0 \<and> read_ok failing_env 1 \<and>
   read_ok failing_env 2 \<and> \<not> read_ok failing_env 3 \<and>
   record_values (trace (snd (main scenario_cfg failing_env))) =
     [ddiv (double_of_nat 15) (double_of_nat 4)] \<and>
   file_written (\<lambda>v. ''3.75'') failing_env (trace (snd (main scenario_cfg failing_env))) =
     ''Date and Time , Pressure [PSI]\<newline>2021-03-05 10:01:00,3.75\<newline>''"
proof -
  have n: "unat (numberOfSamples scenario_cfg) = 2" "unat (numberOfBuffers scenario_cfg) = 2"
    by (simp_all add: scenario_cfg_def)
  have j: "(1::nat) < unat (numberOfSamples scenario_cfg)"
    and i: "(1::nat) < unat (numberOfBuffers scenario_cfg)"
    by (simp_all add: n)
  have ok: "\<forall>k<1 * unat (numberOfBuffers scenario_cfg) + 1. read_ok failing_env k"
    by (simp add: n failing_reads(1))
  have bad: "\<not> read_ok failing_env (1 * unat (numberOfBuffers scenario_cfg) + 1)"
    using failing_reads(2) by (simp add: n)
  note t = read_failure_keeps_completed_records
    [OF failing_started j i ok bad, of "\<lambda>v. ''3.75''"]
  have ct: "current_time failing_env 0 = ''2021-03-05 10:01:00''"
    by (simp add: failing_env_def scenario_env_def)
  have f: "fileOpen failing_env" "fileAccepts failing_env = None"
    by (simp_all add: failing_env_def scenario_env_def)
  have a: "record_values (trace (snd (main scenario_cfg failing_env))) =
      [ddiv (double_of_nat 15) (double_of_nat 4)]"
    using t [THEN conjunct2, THEN conjunct2, THEN conjunct2]
    by (simp add: upt_numeral_1 failing_interval)
  have b: "file_written (\<lambda>v. ''3.75'') failing_env (trace (snd (main scenario_cfg failing_env))) =
     ''Date and Time , Pressure [PSI]\<newline>2021-03-05 10:01:00,3.75\<newline>''"
    using t [THEN conjunct2, THEN conjunct2, THEN conjunct1]
    by (simp add: upt_numeral_1 header_line_def record_line_def ct f)
  from failing_started failing_reads a b show ?thesis by simp
qed

text \<open>
  Claim C9 as stated has the file hold the header and the records of the completed passes
  whenever a read fails. In the run below the fourth read fails, read 1 of pass 1, after
  \<open>myfile.open\<close> has failed: the header and one record were passed to the stream, and the
  file holds nothing.
\<close>

theorem read_failure_with_unopened_file:
  "started no_file_failing_env \<and> read_ok no_file_failing_env 0 \<and>
   read_ok no_file_failing_env 1 \<and> read_ok no_file_failing_env 2 \<and>
   \<not> read_ok no_file_failing_env 3 \<and> \<not> fileOpen no_file_failing_env \<and>
   file_text (\<lambda>v. ''3.75'') (trace (snd (main scenario_cfg no_file_failing_env))) =
     ''Date and Time , Pressure [PSI]\<newline>2021-03-05 10:01:00,3.75\<newline>'' \<and>
   file_written (\<lambda>v. ''3.75'') no_file_failing_env
     (trace (snd (main scenario_cfg no_file_failing_env))) = []"
proof -
  have s: "started no_file_failing_env"
    using failing_started by (simp add: started_def no_file_failing_env_def)
  have r: "read_ok no_file_failing_env 0" "read_ok no_file_failing_env 1"
      "read_ok no_file_failing_env 2" "\<not> read_ok no_file_failing_env 3"
    using failing_reads by (simp_all add: read_ok_def no_file_failing_env_def)
  have e: "\<not> fileOpen no_file_failing_env" by (simp add: no_file_failing_env_def)
  have n: "unat (numberOfSamples scenario_cfg) = 2" "unat (numberOfBuffers scenario_cfg) = 2"
    by (simp_all add: scenario_cfg_def)
  have ok: "\<forall>k<1 * unat (numberOfBuffers scenario_cfg) + 1. read_ok no_file_failing_env k"
    using failing_reads(1) by (simp add: n read_ok_def no_file_failing_env_def)
  have bad: "\<not> read_ok no_file_failing_env (1 * unat (numberOfBuffers scenario_cfg) + 1)"
    using r(4) by (simp add: n)
  have c: "completed_intervals scenario_cfg no_file_failing_env = 1"
    by (rule completed_at [OF _ _ ok bad]) (simp_all add: n)
  have iv: "interval_value scenario_cfg no_file_failing_env 0 = interval_value scenario_cfg failing_env 0"
    by (rule interval_value_samples) (simp add: no_file_failing_env_def)
  have ct: "current_time no_file_failing_env 0 = ''2021-03-05 10:01:00''"
    by (simp add: no_file_failing_env_def failing_env_def scenario_env_def)
  have t: "file_text (\<lambda>v. ''3.75'') (trace (snd (main scenario_cfg no_file_failing_env))) =
     ''Date and Time , Pressure [PSI]\<newline>2021-03-05 10:01:00,3.75\<newline>''"
    using s c by (simp add: main_trace file_text_run upt_numeral_1 header_line_def record_line_def ct)
  have w: "file_written (\<lambda>v. ''3.75'') no_file_failing_env
     (trace (snd (main scenario_cfg no_file_failing_env))) = []"
    using e by (simp add: file_written_def)
  from s r e t w show ?thesis by blast
qed

subsection \<open>The same answers give the same values\<close>



end
